theory Spec2Isabelle
  imports Complex_Main "HOL-Library.Multiset"
begin

section \<open>The syntax tree of the standard \<^verbatim>\<open>ast\<close> module\<close>

text \<open>
  The three analyzers (\<^verbatim>\<open>performance_analyzer.py\<close>, \<^verbatim>\<open>quality_analyzer.py\<close>,
  \<^verbatim>\<open>refactoring_analyzer.py\<close>) read a tree built by \<^verbatim>\<open>ast.parse\<close> and visit it with
  \<^verbatim>\<open>ast.walk\<close>. A node class that some analyzer tests with \<^verbatim>\<open>isinstance\<close> has a
  constructor of its own, with the fields of the class in the order of its \<^verbatim>\<open>_fields\<close>
  and the position attributes the analyzers read. Every other class (\<^verbatim>\<open>ClassDef\<close>,
  \<^verbatim>\<open>Assign\<close>, \<^verbatim>\<open>Name\<close>, \<^verbatim>\<open>Call\<close>, \<^verbatim>\<open>arg\<close>, \<^verbatim>\<open>withitem\<close>, \<^verbatim>\<open>AsyncFunctionDef\<close>,
  \<^verbatim>\<open>IfExp\<close>, ...) is \<open>Other\<close>, which keeps the child nodes in the order
  \<^verbatim>\<open>ast.iter_child_nodes\<close> yields them. Three more classes have a constructor although
  no analyzer tests for them, because they are loops, context-manager blocks and try
  blocks of the language: \<^verbatim>\<open>AsyncFor\<close>, \<^verbatim>\<open>AsyncWith\<close> and \<^verbatim>\<open>TryStar\<close> (the statement
  \<^verbatim>\<open>try: ... except* E: ...\<close>). They are not subclasses of \<^verbatim>\<open>For\<close>, \<^verbatim>\<open>With\<close> and \<^verbatim>\<open>Try\<close>.
\<close>

text \<open>
  The value of a \<^verbatim>\<open>Constant\<close>: \<^verbatim>\<open>isinstance(v, int)\<close> holds for \<open>CInt\<close> and \<open>CBool\<close>
  (\<^verbatim>\<open>bool\<close> is a subclass of \<^verbatim>\<open>int\<close>), \<^verbatim>\<open>isinstance(v, str)\<close> for \<open>CStr\<close> only;
  \<open>COther\<close> stands for \<^verbatim>\<open>float\<close>, \<^verbatim>\<open>complex\<close>, \<^verbatim>\<open>bytes\<close>, \<^verbatim>\<open>None\<close> and \<^verbatim>\<open>Ellipsis\<close>.
\<close>

datatype const_value = CInt int | CBool bool | CStr string | COther

datatype operator = Add | Sub | Mult | MatMult | Div | Mod | PowOp
  | LShift | RShift | BitOr | BitXor | BitAnd | FloorDiv

datatype boolop = And | Or

datatype node =
    Module "node list"
  | FunctionDef string arguments "node list" "node list" "node option" int "int option"
  | For node node "node list" "node list" int
  | While node "node list" "node list" int
  | IfStmt node "node list" "node list"
  | With "node list" "node list"
  | Try "node list" "excepthandler list" "node list" "node list"
  | TryStar "node list" "excepthandler list" "node list" "node list"
  | AsyncFor node node "node list" "node list" int
  | AsyncWith "node list" "node list"
  | Handler excepthandler
  | BoolOp boolop "node list"
  | AugAssign node operator node int
  | Constant const_value int
  | OperatorNode operator
  | BoolOpNode boolop
  | Other "node list"
and arguments =
    Arguments (posonlyargs: "node list") (args: "node list") (vararg: "node option")
      (kwonlyargs: "node list") (kw_defaults: "node option list") (kwarg: "node option")
      (defaults: "node list")
and excepthandler =
    ExceptHandler "node option" "string option" (handler_body: "node list") (handler_lineno: int)

text \<open>
  The constructor arguments are, in this order:
  \<^item> \<open>Module body\<close>;
  \<^item> \<open>FunctionDef name args body decorator_list returns lineno end_lineno\<close>, where
    \<open>end_lineno\<close> is \<open>None\<close> when the attribute is missing or \<^verbatim>\<open>None\<close>;
  \<^item> \<open>For target iter body orelse lineno\<close> and \<open>While test body orelse lineno\<close>;
  \<^item> \<open>IfStmt test body orelse\<close> (the class \<^verbatim>\<open>ast.If\<close>) and \<open>With items body\<close>;
  \<^item> \<open>Try body handlers orelse finalbody\<close>, and \<open>Handler h\<close> for the handler
    \<open>h = ExceptHandler type name body lineno\<close> seen as a node of the tree;
  \<^item> \<open>TryStar\<close>, \<open>AsyncFor\<close> and \<open>AsyncWith\<close> with the fields of \<open>Try\<close>, \<open>For\<close> and
    \<open>With\<close>; the handlers of a \<open>TryStar\<close> are \<^verbatim>\<open>ExceptHandler\<close> objects too;
  \<^item> \<open>BoolOp op values\<close>, \<open>AugAssign target op value lineno\<close>, \<open>Constant value lineno\<close>;
  \<^item> \<open>OperatorNode op\<close> and \<open>BoolOpNode op\<close> for the operator objects, which are nodes
    too and are yielded by \<^verbatim>\<open>ast.iter_child_nodes\<close>.

  Fields that hold no node are left out when no analyzer reads them (\<^verbatim>\<open>type_comment\<close>,
  the \<^verbatim>\<open>kind\<close> of a constant, the positions of the other classes), and so are the
  \<^verbatim>\<open>type_ignores\<close> of a module, which \<^verbatim>\<open>ast.parse\<close> leaves empty, and the type parameters
  that a function definition has from Python 3.12 on.
\<close>

subsection \<open>\<^verbatim>\<open>ast.iter_child_nodes\<close> and \<^verbatim>\<open>ast.walk\<close>\<close>

text \<open>An optional field yields its node when it is not \<^verbatim>\<open>None\<close>.\<close>

definition opt_nodes :: "node option \<Rightarrow> node list" where
  "opt_nodes x = (case x of None \<Rightarrow> [] | Some n \<Rightarrow> [n])"

fun arguments_children :: "arguments \<Rightarrow> node list" where
  "arguments_children (Arguments po ar va ko kd kw de) =
     po @ ar @ opt_nodes va @ ko @ concat (map opt_nodes kd) @ opt_nodes kw @ de"

text \<open>
  The \<^verbatim>\<open>arguments\<close> object of a function is a node of a class no analyzer tests for:
  as a child of the function it is the \<open>Other\<close> node holding its own children.
\<close>

fun iter_child_nodes :: "node \<Rightarrow> node list" where
  "iter_child_nodes (Module body) = body"
| "iter_child_nodes (FunctionDef name a body decorator_list returns lineno end_lineno) =
     Other (arguments_children a) # body @ decorator_list @ opt_nodes returns"
| "iter_child_nodes (For target iter body orelse lineno) = target # iter # body @ orelse"
| "iter_child_nodes (While test body orelse lineno) = test # body @ orelse"
| "iter_child_nodes (IfStmt test body orelse) = test # body @ orelse"
| "iter_child_nodes (With items body) = items @ body"
| "iter_child_nodes (Try body handlers orelse finalbody) =
     body @ map Handler handlers @ orelse @ finalbody"
| "iter_child_nodes (TryStar body handlers orelse finalbody) =
     body @ map Handler handlers @ orelse @ finalbody"
| "iter_child_nodes (AsyncFor target iter body orelse lineno) = target # iter # body @ orelse"
| "iter_child_nodes (AsyncWith items body) = items @ body"
| "iter_child_nodes (Handler (ExceptHandler type name body lineno)) = opt_nodes type @ body"
| "iter_child_nodes (BoolOp op values) = BoolOpNode op # values"
| "iter_child_nodes (AugAssign target op value lineno) = [target, OperatorNode op, value]"
| "iter_child_nodes (Constant value lineno) = []"
| "iter_child_nodes (OperatorNode op) = []"
| "iter_child_nodes (BoolOpNode op) = []"
| "iter_child_nodes (Other children) = children"

text \<open>
  A weight that decreases from a node to the list of its children; it is only the
  termination measure of the traversals below.
\<close>

fun walk_weight :: "node \<Rightarrow> nat" where
  "walk_weight (Handler h) = 3 * size (Handler h)"
| "walk_weight n = 3 * size n + 1"

lemma walk_weight_le: "walk_weight n \<le> 3 * size n + 1"
  by (cases n) auto

lemma weight_list: "sum_list (map walk_weight xs) + 2 * length xs \<le> 3 * size_list size xs"
proof (induction xs)
  case (Cons x xs)
  then show ?case using walk_weight_le[of x] by simp
qed simp

lemma weight_opt: "sum_list (map walk_weight (opt_nodes x)) \<le> 3 * size_option size x"
proof (cases x)
  case (Some c)
  then show ?thesis using walk_weight_le[of c] by (simp add: opt_nodes_def)
qed (simp add: opt_nodes_def)

lemma weight_handlers: "sum_list (map (walk_weight \<circ> Handler) hs) = 3 * size_list size hs"
  by (induction hs) auto

lemma size_list_append: "size_list f (xs @ ys) = size_list f xs + size_list f ys"
  by (induction xs) auto

lemma size_list_opt: "size_list size (opt_nodes x) \<le> size_option size x"
  by (cases x) (auto simp: opt_nodes_def)

lemma size_list_opts:
  "size_list size (concat (map opt_nodes xs)) \<le> size_list (size_option size) xs"
  by (induction xs) (auto simp: opt_nodes_def size_list_append split: option.splits)

lemma size_arguments_children: "size_list size (arguments_children a) < size a"
proof (cases a)
  case (Arguments po ar va ko kd kw de)
  then show ?thesis
    using size_list_opts[of kd] size_list_opt[of va] size_list_opt[of kw]
    by (simp add: size_list_append)
qed

lemma weight_children: "sum_list (map walk_weight (iter_child_nodes n)) < walk_weight n"
proof (cases n)
  case (Module body)
  then show ?thesis using weight_list[of body] by simp
next
  case (FunctionDef name a body decs ret ln eln)
  then show ?thesis
    using weight_list[of body] weight_list[of decs] weight_opt[of ret]
      size_arguments_children[of a]
    by simp
next
  case (For target iter body orelse ln)
  then show ?thesis
    using weight_list[of body] weight_list[of orelse] walk_weight_le[of target]
      walk_weight_le[of iter]
    by simp
next
  case (While test body orelse ln)
  then show ?thesis
    using weight_list[of body] weight_list[of orelse] walk_weight_le[of test] by simp
next
  case (IfStmt test body orelse)
  then show ?thesis
    using weight_list[of body] weight_list[of orelse] walk_weight_le[of test] by simp
next
  case (With items body)
  then show ?thesis using weight_list[of body] weight_list[of items] by simp
next
  case (Try body handlers orelse finalbody)
  then show ?thesis
    using weight_list[of body] weight_list[of orelse] weight_list[of finalbody]
    by (simp add: weight_handlers)
next
  case (TryStar body handlers orelse finalbody)
  then show ?thesis
    using weight_list[of body] weight_list[of orelse] weight_list[of finalbody]
    by (simp add: weight_handlers)
next
  case (AsyncFor target iter body orelse ln)
  then show ?thesis
    using weight_list[of body] weight_list[of orelse] walk_weight_le[of target]
      walk_weight_le[of iter]
    by simp
next
  case (AsyncWith items body)
  then show ?thesis using weight_list[of body] weight_list[of items] by simp
next
  case (Handler h)
  show ?thesis
  proof (cases h)
    case (ExceptHandler ty nm b ln)
    with Handler show ?thesis using weight_list[of b] weight_opt[of ty] by simp
  qed
next
  case (BoolOp op vs)
  then show ?thesis using weight_list[of vs] by simp
next
  case (AugAssign target op v ln)
  then show ?thesis using walk_weight_le[of target] walk_weight_le[of v] by simp
next
  case (Other cs)
  then show ?thesis using weight_list[of cs] by simp
qed simp_all

lemma child_smaller: "c \<in> set (iter_child_nodes n) \<Longrightarrow> walk_weight c < walk_weight n"
  using weight_children[of n]
    member_le_sum_list[of "walk_weight c" "map walk_weight (iter_child_nodes n)"]
  by auto

text \<open>
  \<^verbatim>\<open>ast.walk\<close> keeps a queue: it takes the node at the front, appends the children of
  that node at the back and yields the node, until the queue is empty. The order is
  breadth first.
  \<^verbatim>\<open>
    todo = deque([node])
    while todo:
        node = todo.popleft()
        todo.extend(iter_child_nodes(node))
        yield node
  \<close>
\<close>

function walk_queue :: "node list \<Rightarrow> node list" where
  "walk_queue [] = []"
| "walk_queue (n # todo) = n # walk_queue (todo @ iter_child_nodes n)"
  by pat_completeness auto
termination
  by (relation "measure (\<lambda>q. sum_list (map walk_weight q))") (use weight_children in auto)

definition walk :: "node \<Rightarrow> node list" where
  "walk n = walk_queue [n]"

text \<open>
  The subtree of a node, as a list in depth-first pre-order: the node, then the subtree
  of each child. It is not part of the program; it says which nodes lie inside a node.
\<close>

function subtree :: "node \<Rightarrow> node list" where
  "subtree n = n # concat (map subtree (iter_child_nodes n))"
  by pat_completeness auto
termination
  by (relation "measure walk_weight") (use child_smaller in auto)

declare subtree.simps [simp del]

section \<open>Reading and parsing the input file\<close>

text \<open>
  Each analyzer starts with
  \<^verbatim>\<open>
    with open(file_path, 'r', encoding='utf-8') as f:
        content = f.read()
    tree = ast.parse(content, filename=file_path)
  \<close>
  inside \<^verbatim>\<open>try: ... except Exception as e:\<close>. The file system and the parser are outside
  the program; their outcome is the input of the model: either an exception was raised,
  and \<open>Raised msg\<close> carries \<^verbatim>\<open>str(e)\<close>, or the text was read and parsed, and
  \<open>Loaded content tree\<close> carries both. Python strings are lists of characters here.

  The same \<^verbatim>\<open>try\<close> covers the analysis. An operation of the analysis that can raise
  returns a value of \<open>string + 'a\<close>, where \<open>Inl msg\<close> is the exception with
  \<^verbatim>\<open>str(e) = msg\<close>, and a loop whose body can raise stops at the first exception.
\<close>

datatype load = Raised string | Loaded string node

fun fold_raise :: "('s \<Rightarrow> 'a \<Rightarrow> string + 's) \<Rightarrow> 's \<Rightarrow> 'a list \<Rightarrow> string + 's" where
  "fold_raise f s [] = Inr s"
| "fold_raise f s (x # xs) =
     (case f s x of Inl e \<Rightarrow> Inl e | Inr s' \<Rightarrow> fold_raise f s' xs)"

text \<open>
  The message of the exception that \<^verbatim>\<open>ast.parse\<close> raises on a source text nested too
  deeply (a \<^verbatim>\<open>MemoryError\<close> without arguments, for instance on 6000 unary minus signs
  before a number): the empty string.
\<close>

definition memory_error_message :: string where
  "memory_error_message = []"

section \<open>\<^verbatim>\<open>performance_analyzer.py\<close>\<close>

record loop_entry =
  loop_type :: string
  depth :: int
  loop_line :: int
  column :: int

record function_entry =
  fn_name :: string
  fn_line :: int
  params :: int

record concat_issue =
  issue_line :: int
  variable :: string

text \<open>The report; \<open>perf_error\<close> is the key \<^verbatim>\<open>error\<close> (\<open>None\<close> when the key is absent) and
  \<open>perf_functions\<close> the key \<^verbatim>\<open>functions\<close>.\<close>

record performance_report =
  perf_error :: "string option"
  loops :: "loop_entry list"
  perf_functions :: "function_entry list"
  stringConcatIssues :: "concat_issue list"

text \<open>The local lists of \<^verbatim>\<open>analyze_file\<close>, threaded through the loop over the nodes.\<close>

record perf_state =
  st_loops :: "loop_entry list"
  st_functions :: "function_entry list"
  st_string_concat_issues :: "concat_issue list"
  loop_stack :: "int list"

text \<open>
  \<^verbatim>\<open>hasattr(child.value, 'value') and isinstance(child.value.value, str)\<close>: among the
  node classes only \<^verbatim>\<open>Constant\<close> has a \<^verbatim>\<open>value\<close> attribute that is not a node or \<^verbatim>\<open>None\<close>.
\<close>

fun has_str_value :: "node \<Rightarrow> bool" where
  "has_str_value (Constant (CStr s) lineno) = True"
| "has_str_value n = False"

text \<open>
  The body of the inner loop \<^verbatim>\<open>for child in ast.walk(node)\<close>: the findings one child
  appends to \<^verbatim>\<open>string_concat_issues\<close>.
\<close>

fun concat_check :: "node \<Rightarrow> concat_issue list" where
  "concat_check (AugAssign target op val lineno) =
     (if op = Add then
        (if has_str_value val then [\<lparr>issue_line = lineno, variable = ''string_var''\<rparr>] else [])
      else [])"
| "concat_check n = []"

text \<open>
  The branch for a loop node: the depth is read from the stack, pushed, the loop is
  recorded, its subtree is searched, and the stack is popped, all inside one step of the
  outer loop over \<^verbatim>\<open>ast.walk(tree)\<close>.
\<close>

definition loop_visit :: "perf_state \<Rightarrow> string \<Rightarrow> int \<Rightarrow> node \<Rightarrow> perf_state" where
  "loop_visit s ty lineno n =
     (let d = int (length (loop_stack s)) + 1;
          pushed = loop_stack s @ [d];
          loops1 = st_loops s @ [\<lparr>loop_type = ty, depth = d, loop_line = lineno, column = 0\<rparr>];
          issues1 = foldl (\<lambda>acc child. acc @ concat_check child)
                      (st_string_concat_issues s) (walk n);
          popped = butlast pushed
      in s\<lparr>st_loops := loops1, st_string_concat_issues := issues1, loop_stack := popped\<rparr>)"

fun perf_visit :: "perf_state \<Rightarrow> node \<Rightarrow> perf_state" where
  "perf_visit s (FunctionDef name a body decorator_list returns lineno end_lineno) =
     s\<lparr>st_functions := st_functions s @
          [\<lparr>fn_name = name, fn_line = lineno, params = int (length (args a))\<rparr>]\<rparr>"
| "perf_visit s (For target iter body orelse lineno) =
     loop_visit s ''for'' lineno (For target iter body orelse lineno)"
| "perf_visit s (While test body orelse lineno) =
     loop_visit s ''while'' lineno (While test body orelse lineno)"
| "perf_visit s n = s"

definition perf_init :: perf_state where
  "perf_init = \<lparr>st_loops = [], st_functions = [], st_string_concat_issues = [], loop_stack = []\<rparr>"

definition performance_analyze_file :: "load \<Rightarrow> performance_report" where
  "performance_analyze_file src =
     (case src of
        Raised msg \<Rightarrow>
          \<lparr>perf_error = Some msg, loops = [], perf_functions = [], stringConcatIssues = []\<rparr>
      | Loaded content tree \<Rightarrow>
          (let s = foldl perf_visit perf_init (walk tree)
           in \<lparr>perf_error = None, loops = st_loops s, perf_functions = st_functions s,
               stringConcatIssues = st_string_concat_issues s\<rparr>))"

section \<open>Strings\<close>

text \<open>
  \<^verbatim>\<open>str(n)\<close> for an integer, as the f-strings of the analyzers use it: the decimal
  digits, with a minus sign for a negative number.
\<close>

definition digit_char :: "nat \<Rightarrow> char" where
  "digit_char d = ''0123456789'' ! d"

function str_nat :: "nat \<Rightarrow> string" where
  "str_nat n = (if n < 10 then [digit_char n] else str_nat (n div 10) @ [digit_char (n mod 10)])"
  by pat_completeness auto
termination
  by (relation "measure id") auto

declare str_nat.simps [simp del]

definition str_int :: "int \<Rightarrow> string" where
  "str_int i = (if i < 0 then CHR ''-'' # str_nat (nat (- i)) else str_nat (nat i))"

text \<open>
  The interpreter limits the conversions between \<^verbatim>\<open>int\<close> and decimal strings
  (\<^verbatim>\<open>sys.get_int_max_str_digits()\<close>, 4300 by default): \<^verbatim>\<open>str(n)\<close> raises \<^verbatim>\<open>ValueError\<close>
  when \<open>n\<close> has more decimal digits than the limit, and \<^verbatim>\<open>int(s)\<close> raises it when \<open>s\<close>
  has more digits than the limit, leading zeros counted. The two messages are those of
  the interpreter. The analyzers convert two numbers that come from the text of the
  file, a matched run of digits and the value of a constant; these conversions are
  \<open>py_int\<close> and \<open>py_str\<close>. The other numbers they format are counts and differences of
  line numbers of the file, far below the limit, and are formatted with \<open>str_int\<close>.
\<close>

definition int_max_str_digits :: nat where
  "int_max_str_digits = 4300"

definition str_limit_message :: string where
  "str_limit_message =
     ''Exceeds the limit (4300 digits) for integer string conversion; use sys.set_int_max_str_digits() to increase the limit''"

definition int_limit_message :: "nat \<Rightarrow> string" where
  "int_limit_message k =
     ''Exceeds the limit (4300 digits) for integer string conversion: value has '' @ str_nat k
       @ '' digits; use sys.set_int_max_str_digits() to increase the limit''"

definition py_str :: "int \<Rightarrow> string + string" where
  "py_str i =
     (if length (str_nat (nat \<bar>i\<bar>)) > int_max_str_digits then Inl str_limit_message
      else Inr (str_int i))"

text \<open>\<^verbatim>\<open>int(s)\<close> on a string of decimal digits.\<close>

definition int_of_digits :: "string \<Rightarrow> int" where
  "int_of_digits ds = foldl (\<lambda>a c. 10 * a + (int (of_char c) - 48)) 0 ds"

definition py_int :: "string \<Rightarrow> string + int" where
  "py_int ds =
     (if length ds > int_max_str_digits then Inl (int_limit_message (length ds))
      else Inr (int_of_digits ds))"

section \<open>\<^verbatim>\<open>quality_analyzer.py\<close>\<close>

text \<open>
  \<^verbatim>\<open>calculate_cyclomatic_complexity\<close>: one step of the loop over \<^verbatim>\<open>ast.walk(node)\<close>,
  on the running value of \<^verbatim>\<open>complexity\<close>.
\<close>

fun cyclomatic_step :: "int \<Rightarrow> node \<Rightarrow> int" where
  "cyclomatic_step c (IfStmt test body orelse) = c + 1"
| "cyclomatic_step c (For target iter body orelse lineno) = c + 1"
| "cyclomatic_step c (While test body orelse lineno) = c + 1"
| "cyclomatic_step c (With items body) = c + 1"
| "cyclomatic_step c (Try body handlers orelse finalbody) = c + 1"
| "cyclomatic_step c (Handler h) = c + 1"
| "cyclomatic_step c (BoolOp op values) =
     (if length values > 1 then c + (int (length values) - 1) else c)"
| "cyclomatic_step c n = c"

definition calculate_cyclomatic_complexity :: "node \<Rightarrow> int" where
  "calculate_cyclomatic_complexity n = foldl cyclomatic_step 1 (walk n)"

fun cognitive_step :: "int \<Rightarrow> node \<Rightarrow> int" where
  "cognitive_step c (IfStmt test body orelse) = c + 1"
| "cognitive_step c (For target iter body orelse lineno) = c + 1"
| "cognitive_step c (While test body orelse lineno) = c + 1"
| "cognitive_step c (Try body handlers orelse finalbody) = c + 1"
| "cognitive_step c n = c"

definition calculate_cognitive_complexity :: "node \<Rightarrow> int" where
  "calculate_cognitive_complexity n = foldl cognitive_step 0 (walk n)"

record function_metrics =
  name :: string
  line :: int
  cyclomatic :: int
  cognitive :: int
  nestingDepth :: int
  decisionPoints :: int

text \<open>The first loop of \<^verbatim>\<open>analyze_file\<close>, which fills the list \<^verbatim>\<open>functions\<close>.\<close>

fun functions_visit :: "function_metrics list \<Rightarrow> node \<Rightarrow> function_metrics list" where
  "functions_visit fs (FunctionDef nm a body decorator_list returns lineno end_lineno) =
     (let cyc = calculate_cyclomatic_complexity
                  (FunctionDef nm a body decorator_list returns lineno end_lineno);
          cog = calculate_cognitive_complexity
                  (FunctionDef nm a body decorator_list returns lineno end_lineno);
          nesting = 0
      in fs @ [\<lparr>name = nm, line = lineno, cyclomatic = cyc, cognitive = cog,
                nestingDepth = nesting, decisionPoints = cyc - 1\<rparr>])"
| "functions_visit fs n = fs"

record smell =
  smell_type :: string
  smell_line :: int
  smell_description :: string
  severity :: string

text \<open>The dictionary \<^verbatim>\<open>smells\<close> that the second loop fills.\<close>

record smells =
  godObjects :: "smell list"
  longParameterLists :: "smell list"
  longMethods :: "smell list"
  magicNumbers :: "smell list"
  emptyCatches :: "smell list"

definition long_parameter_smell :: "string \<Rightarrow> int \<Rightarrow> nat \<Rightarrow> smell" where
  "long_parameter_smell nm lineno k =
     \<lparr>smell_type = ''LONG_PARAMETER_LIST'', smell_line = lineno,
      smell_description = ''Function '' @ nm @ '' has '' @ str_int (int k) @ '' parameters'',
      severity = ''medium''\<rparr>"

definition long_method_smell :: "string \<Rightarrow> int \<Rightarrow> int \<Rightarrow> smell" where
  "long_method_smell nm lineno lines =
     \<lparr>smell_type = ''LONG_METHOD'', smell_line = lineno,
      smell_description = ''Function '' @ nm @ '' is '' @ str_int lines @ '' lines long'',
      severity = ''medium''\<rparr>"

definition empty_catch_smell :: "int \<Rightarrow> smell" where
  "empty_catch_smell lineno =
     \<lparr>smell_type = ''EMPTY_CATCH'', smell_line = lineno,
      smell_description = ''Empty except block'', severity = ''low''\<rparr>"

text \<open>The finding of a magic number, from the text \<^verbatim>\<open>str(node.value)\<close> of the f-string.\<close>

definition magic_number_smell :: "string \<Rightarrow> int \<Rightarrow> smell" where
  "magic_number_smell value_text lineno =
     \<lparr>smell_type = ''MAGIC_NUMBER'', smell_line = lineno,
      smell_description = ''Magic number: '' @ value_text, severity = ''low''\<rparr>"

text \<open>
  \<^verbatim>\<open>isinstance(node.value, int)\<close> with the integer the comparison \<^verbatim>\<open>node.value > 10\<close>
  then reads: \<^verbatim>\<open>True\<close> is 1 and \<^verbatim>\<open>False\<close> is 0.
\<close>

fun int_value :: "const_value \<Rightarrow> int option" where
  "int_value (CInt i) = Some i"
| "int_value (CBool b) = Some (if b then 1 else 0)"
| "int_value v = None"

text \<open>The body of \<^verbatim>\<open>for handler in node.handlers\<close>.\<close>

fun handler_visit :: "smells \<Rightarrow> excepthandler \<Rightarrow> smells" where
  "handler_visit s (ExceptHandler type nm body lineno) =
     (if body = [] then s\<lparr>emptyCatches := emptyCatches s @ [empty_catch_smell lineno]\<rparr> else s)"

text \<open>
  The body of the second loop: the \<^verbatim>\<open>if\<close>/\<^verbatim>\<open>elif\<close> chain over the class of the node.
  In the branch of a function the two tests follow each other, the second one guarded
  by \<^verbatim>\<open>hasattr(node, 'end_lineno') and node.end_lineno\<close>. In the branch of a constant the
  f-string \<^verbatim>\<open>f'Magic number: {node.value}'\<close> converts the value, which raises for a
  value of more digits than the limit (a hexadecimal literal can have such a value).
\<close>

fun smells_visit :: "smells \<Rightarrow> node \<Rightarrow> string + smells" where
  "smells_visit s (FunctionDef nm a body decorator_list returns lineno end_lineno) =
     (let s1 = (if length (args a) > 5
                then s\<lparr>longParameterLists := longParameterLists s @
                        [long_parameter_smell nm lineno (length (args a))]\<rparr>
                else s)
      in case end_lineno of
           None \<Rightarrow> Inr s1
         | Some e \<Rightarrow>
             (if e \<noteq> 0 then
                (let lines = e - lineno
                 in if lines > 50
                    then Inr (s1\<lparr>longMethods := longMethods s1 @
                                [long_method_smell nm lineno lines]\<rparr>)
                    else Inr s1)
              else Inr s1))"
| "smells_visit s (Try body handlers orelse finalbody) = Inr (foldl handler_visit s handlers)"
| "smells_visit s (Constant v lineno) =
     (case int_value v of
        None \<Rightarrow> Inr s
      | Some i \<Rightarrow>
          (if i > 10 then
             (case py_str i of
                Inl e \<Rightarrow> Inl e
              | Inr value_text \<Rightarrow>
                  Inr (s\<lparr>magicNumbers := magicNumbers s @
                           [magic_number_smell value_text lineno]\<rparr>))
           else Inr s))"
| "smells_visit s n = Inr s"

definition smells_init :: smells where
  "smells_init = \<lparr>godObjects = [], longParameterLists = [], longMethods = [],
                  magicNumbers = [], emptyCatches = []\<rparr>"

text \<open>
  The built-in \<^verbatim>\<open>max\<close> with a key: it keeps the first item and replaces it only by an
  item whose key is strictly greater. \<open>None\<close> is the empty sequence, where \<^verbatim>\<open>max\<close>
  returns its \<^verbatim>\<open>default\<close>.
\<close>

fun max_from :: "('a \<Rightarrow> int) \<Rightarrow> 'a \<Rightarrow> 'a list \<Rightarrow> 'a" where
  "max_from key best [] = best"
| "max_from key best (x # xs) =
     (if key x > key best then max_from key x xs else max_from key best xs)"

definition py_max :: "('a \<Rightarrow> int) \<Rightarrow> 'a list \<Rightarrow> 'a option" where
  "py_max key xs = (case xs of [] \<Rightarrow> None | x # rest \<Rightarrow> Some (max_from key x rest))"

text \<open>
  The report. An average is either the integer 0 or the result of the division
  \<^verbatim>\<open>sum(...) / len(functions)\<close>, a float: \<open>PyQuotient a b\<close> stands for the float that the
  division of the integers \<open>a\<close> and \<open>b\<close> yields, without computing it.
\<close>

datatype py_number = PyInt int | PyQuotient int nat

record complexity_report =
  complexity_functions :: "function_metrics list"
  totalFunctions :: int
  averageComplexity :: py_number
  maxComplexity :: int
  averageCognitive :: py_number
  totalDecisionPoints :: int
  mostComplexFunction :: "string option"

record class_metrics =
  class_total :: int
  class_large :: int

record function_summary =
  function_total :: int
  function_long :: int

record smells_report = smells +
  classMetrics :: class_metrics
  functionMetrics :: function_summary

record quality_report =
  quality_error :: "string option"
  complexity :: complexity_report
  smells_of :: smells_report

text \<open>The report of the \<^verbatim>\<open>except\<close> clause.\<close>

definition quality_error_report :: "string \<Rightarrow> quality_report" where
  "quality_error_report msg =
     \<lparr>quality_error = Some msg,
      complexity = \<lparr>complexity_functions = [], totalFunctions = 0,
        averageComplexity = PyInt 0, maxComplexity = 0, averageCognitive = PyInt 0,
        totalDecisionPoints = 0, mostComplexFunction = None\<rparr>,
      smells_of = \<lparr>godObjects = [], longParameterLists = [], longMethods = [],
        magicNumbers = [], emptyCatches = [],
        classMetrics = \<lparr>class_total = 0, class_large = 0\<rparr>,
        functionMetrics = \<lparr>function_total = 0, function_long = 0\<rparr>\<rparr>\<rparr>"

definition quality_analyze_file :: "load \<Rightarrow> quality_report" where
  "quality_analyze_file src =
     (case src of
        Raised msg \<Rightarrow> quality_error_report msg
      | Loaded content tree \<Rightarrow>
          (let fs = foldl functions_visit [] (walk tree)
           in case fold_raise smells_visit smells_init (walk tree) of
                Inl e \<Rightarrow> quality_error_report e
              | Inr sm \<Rightarrow>
                  \<lparr>quality_error = None,
                   complexity = \<lparr>complexity_functions = fs,
                     totalFunctions = int (length fs),
                     averageComplexity =
                       (if fs \<noteq> [] then PyQuotient (sum_list (map cyclomatic fs)) (length fs)
                        else PyInt 0),
                     maxComplexity =
                       (case py_max id (map cyclomatic fs) of None \<Rightarrow> 0 | Some m \<Rightarrow> m),
                     averageCognitive =
                       (if fs \<noteq> [] then PyQuotient (sum_list (map cognitive fs)) (length fs)
                        else PyInt 0),
                     totalDecisionPoints = sum_list (map decisionPoints fs),
                     mostComplexFunction =
                       (case py_max cyclomatic fs of None \<Rightarrow> None | Some f \<Rightarrow> Some (name f))\<rparr>,
                   smells_of = \<lparr>godObjects = godObjects sm,
                     longParameterLists = longParameterLists sm,
                     longMethods = longMethods sm,
                     magicNumbers = magicNumbers sm,
                     emptyCatches = emptyCatches sm,
                     classMetrics = \<lparr>class_total = 0, class_large = 0\<rparr>,
                     functionMetrics = \<lparr>function_total = int (length fs),
                       function_long = int (length (longMethods sm))\<rparr>\<rparr>\<rparr>))"

section \<open>\<^verbatim>\<open>refactoring_analyzer.py\<close>\<close>

subsection \<open>The string operations on a source line\<close>

text \<open>
  A character is one of the 256 values of \<^typ>\<open>char\<close>, read as the code point of that
  number. The classes below are those of Python on these code points:
  \<^verbatim>\<open>str.isspace\<close> for \<^verbatim>\<open>strip()\<close>, and in the pattern \<^verbatim>\<open>\d\<close> and the word characters
  that decide \<^verbatim>\<open>\b\<close>.
\<close>

definition is_space :: "char \<Rightarrow> bool" where
  "is_space c =
     (let k = (of_char c :: nat)
      in (9 \<le> k \<and> k \<le> 13) \<or> (28 \<le> k \<and> k \<le> 32) \<or> k = 133 \<or> k = 160)"

definition is_digit :: "char \<Rightarrow> bool" where
  "is_digit c = (let k = (of_char c :: nat) in 48 \<le> k \<and> k \<le> 57)"

definition is_word :: "char \<Rightarrow> bool" where
  "is_word c =
     (let k = (of_char c :: nat)
      in (48 \<le> k \<and> k \<le> 57) \<or> (65 \<le> k \<and> k \<le> 90) \<or> k = 95 \<or> (97 \<le> k \<and> k \<le> 122)
         \<or> k = 170 \<or> k = 178 \<or> k = 179 \<or> k = 181 \<or> k = 185 \<or> k = 186
         \<or> (188 \<le> k \<and> k \<le> 190) \<or> (192 \<le> k \<and> k \<le> 214) \<or> (216 \<le> k \<and> k \<le> 246)
         \<or> 248 \<le> k)"

definition strip :: "string \<Rightarrow> string" where
  "strip s = rev (dropWhile is_space (rev (dropWhile is_space s)))"

definition startswith :: "string \<Rightarrow> string \<Rightarrow> bool" where
  "startswith s prefix = (take (length prefix) s = prefix)"

text \<open>\<^verbatim>\<open>content.split('\n')\<close>: the pieces between the newline characters, at least one.\<close>

fun split_lines :: "string \<Rightarrow> string list" where
  "split_lines [] = [[]]"
| "split_lines (c # cs) =
     (if c = CHR 0x0A then [] # split_lines cs
      else (case split_lines cs of [] \<Rightarrow> [[c]] | l # ls \<Rightarrow> (c # l) # ls))"

text \<open>
  \<^verbatim>\<open>re.search(r'\b\d{3,}\b|\b[1-9]\d{2,}\b', line)\<close>, the leftmost match. A match of
  \<^verbatim>\<open>\b\d{3,}\b\<close> at a position needs a word boundary there (no word character before
  it), three digits or more, and a word boundary after them: since a digit is a word
  character, the digits are the whole run of digits at that position and the character
  after the run is not a word character. A match of the second alternative is a match
  of the first at the same position, and the first is tried first. The argument \<open>prev\<close>
  says whether the character before the position is a word character.
\<close>

fun magic_search :: "bool \<Rightarrow> string \<Rightarrow> string option" where
  "magic_search prev [] = None"
| "magic_search prev (c # cs) =
     (let run = takeWhile is_digit (c # cs);
          rest = dropWhile is_digit (c # cs)
      in if \<not> prev \<and> length run \<ge> 3 \<and> (case rest of [] \<Rightarrow> True | r # rs \<Rightarrow> \<not> is_word r)
         then Some run
         else magic_search (is_word c) cs)"

subsection \<open>The opportunities\<close>

record location =
  loc_file :: string
  loc_line :: int

record opportunity =
  opp_type :: string
  description :: string
  priority :: string
  location :: location
  suggestion :: string
  impact :: string
  example :: string

definition long_function_opportunity :: "string \<Rightarrow> string \<Rightarrow> int \<Rightarrow> int \<Rightarrow> opportunity" where
  "long_function_opportunity file_path nm lineno lines_count =
     \<lparr>opp_type = ''LONG_FUNCTION'',
      description = ''Function '' @ nm @ '' is '' @ str_int lines_count @ '' lines long'',
      priority = ''medium'',
      location = \<lparr>loc_file = file_path, loc_line = lineno\<rparr>,
      suggestion = ''Break this function into smaller, focused functions'',
      impact = ''Improves code maintainability and testability'',
      example = ''def process_data(data):\<newline>    validate(data)\<newline>    transform(data)\<newline>    return data\<newline>\<newline>def validate(data):\<newline>    # validation logic\<newline>\<newline>def transform(data):\<newline>    # transform logic''\<rparr>"

definition long_parameter_opportunity :: "string \<Rightarrow> string \<Rightarrow> int \<Rightarrow> nat \<Rightarrow> opportunity" where
  "long_parameter_opportunity file_path nm lineno k =
     \<lparr>opp_type = ''LONG_PARAMETER_LIST'',
      description = ''Function '' @ nm @ '' has '' @ str_int (int k) @ '' parameters'',
      priority = ''medium'',
      location = \<lparr>loc_file = file_path, loc_line = lineno\<rparr>,
      suggestion = ''Use a parameter object or **kwargs'',
      impact = ''Makes function calls more readable'',
      example = ''def process(config, data, options):\<newline>    # ...\<newline>\<newline># Instead:\<newline>def process(params):\<newline>    config = params['config']\<newline>    data = params['data']\<newline>    options = params['options']''\<rparr>"

definition long_line_opportunity :: "string \<Rightarrow> nat \<Rightarrow> string \<Rightarrow> opportunity" where
  "long_line_opportunity file_path i txt =
     \<lparr>opp_type = ''LONG_LINE'',
      description = ''Line is '' @ str_int (int (length txt)) @ '' characters - exceeds 100 char limit'',
      priority = ''low'',
      location = \<lparr>loc_file = file_path, loc_line = int i + 1\<rparr>,
      suggestion = ''Break into multiple lines for better readability'',
      impact = ''Improves code readability and maintainability'',
      example = ''result = some_very_long_function_call(\<newline>    with_many_parameters,\<newline>    and_more_parameters\<newline>)''\<rparr>"

text \<open>
  The number of a magic-number opportunity is the result of \<^verbatim>\<open>int\<close> on at most
  \<open>int_max_str_digits\<close> digits, so the f-strings that format it do not raise (lemma
  \<open>py_str_int_of_digits\<close> below).
\<close>

definition magic_number_opportunity :: "string \<Rightarrow> nat \<Rightarrow> int \<Rightarrow> opportunity" where
  "magic_number_opportunity file_path i num =
     \<lparr>opp_type = ''MAGIC_NUMBER'',
      description = ''Magic number '' @ str_int num @ '' found - should be named constant'',
      priority = ''low'',
      location = \<lparr>loc_file = file_path, loc_line = int i + 1\<rparr>,
      suggestion = ''Extract to a named constant'',
      impact = ''Makes code more maintainable and self-documenting'',
      example = ''MAX_RETRIES = '' @ str_int num @ ''\<newline># Instead of using '' @ str_int num @ '' directly''\<rparr>"

text \<open>The body of the loop over the nodes of the tree.\<close>

fun function_visit :: "string \<Rightarrow> opportunity list \<Rightarrow> node \<Rightarrow> opportunity list" where
  "function_visit file_path opps (FunctionDef nm a body decorator_list returns lineno end_lineno) =
     (let opps1 =
            (case end_lineno of
               None \<Rightarrow> opps
             | Some e \<Rightarrow>
                 (if e \<noteq> 0 then
                    (let lines_count = e - lineno
                     in if lines_count > 30
                        then opps @ [long_function_opportunity file_path nm lineno lines_count]
                        else opps)
                  else opps))
      in if length (args a) > 5
         then opps1 @ [long_parameter_opportunity file_path nm lineno (length (args a))]
         else opps1)"
| "function_visit file_path opps n = opps"

text \<open>
  The body of \<^verbatim>\<open>for i, line in enumerate(lines)\<close>. On a line that is not a comment,
  \<^verbatim>\<open>int(magic_match.group())\<close> raises when the matched run has more digits than the limit.
\<close>

definition line_visit ::
  "string \<Rightarrow> opportunity list \<Rightarrow> nat \<times> string \<Rightarrow> string + opportunity list" where
  "line_visit file_path opps p =
     (case p of (i, txt) \<Rightarrow>
        (let opps1 =
               (if length txt > 100 \<and> \<not> startswith (strip txt) ''#''
                then opps @ [long_line_opportunity file_path i txt]
                else opps)
         in case magic_search False txt of
              None \<Rightarrow> Inr opps1
            | Some m \<Rightarrow>
                (if \<not> startswith (strip txt) ''#'' then
                   (case py_int m of
                      Inl e \<Rightarrow> Inl e
                    | Inr num \<Rightarrow>
                        (if num \<notin> set [0, 1, - 1, 2, 10, 100, 1000]
                         then Inr (opps1 @ [magic_number_opportunity file_path i num])
                         else Inr opps1))
                 else Inr opps1)))"

text \<open>\<^verbatim>\<open># Filter by focus area\<close>\<close>

definition filter_focus :: "string \<Rightarrow> opportunity list \<Rightarrow> opportunity list" where
  "filter_focus focus_area opps =
     (if focus_area \<noteq> ''all'' then
        (if focus_area = ''performance'' then
           filter (\<lambda>opp. opp_type opp \<in> set [''LONG_FUNCTION'']) opps
         else if focus_area = ''maintainability'' then
           filter (\<lambda>opp. opp_type opp \<in> set [''LONG_FUNCTION'', ''LONG_PARAMETER_LIST'',
                                           ''MAGIC_NUMBER'']) opps
         else if focus_area = ''readability'' then
           filter (\<lambda>opp. opp_type opp \<in> set [''LONG_LINE'', ''MAGIC_NUMBER'']) opps
         else opps)
      else opps)"

record priority_breakdown =
  high :: int
  medium :: int
  low :: int

record refactoring_report =
  refactoring_error :: "string option"
  opportunities :: "opportunity list"
  totalOpportunities :: int
  priorityBreakdown :: priority_breakdown
  focusArea :: string

text \<open>
  The opportunity list before the filter: the loop over the tree, then the loop over
  the lines, which can raise.
\<close>

definition detect_opportunities :: "string \<Rightarrow> string \<Rightarrow> node \<Rightarrow> string + opportunity list" where
  "detect_opportunities file_path content tree =
     (let lines = split_lines content;
          opps1 = foldl (function_visit file_path) [] (walk tree)
      in fold_raise (line_visit file_path) opps1 (enumerate 0 lines))"

text \<open>The report of the \<^verbatim>\<open>except\<close> clause.\<close>

definition refactoring_error_report :: "string \<Rightarrow> string \<Rightarrow> refactoring_report" where
  "refactoring_error_report focus_area msg =
     \<lparr>refactoring_error = Some msg, opportunities = [], totalOpportunities = 0,
      priorityBreakdown = \<lparr>high = 0, medium = 0, low = 0\<rparr>, focusArea = focus_area\<rparr>"

definition refactoring_analyze_file :: "string \<Rightarrow> string \<Rightarrow> load \<Rightarrow> refactoring_report" where
  "refactoring_analyze_file file_path focus_area src =
     (case src of
        Raised msg \<Rightarrow> refactoring_error_report focus_area msg
      | Loaded content tree \<Rightarrow>
          (case detect_opportunities file_path content tree of
             Inl e \<Rightarrow> refactoring_error_report focus_area e
           | Inr detected \<Rightarrow>
               (let opps = filter_focus focus_area detected
                in \<lparr>refactoring_error = None, opportunities = opps,
                    totalOpportunities = int (length opps),
                    priorityBreakdown =
                      \<lparr>high = int (length (filter (\<lambda>opp. priority opp = ''high'') opps)),
                       medium = int (length (filter (\<lambda>opp. priority opp = ''medium'') opps)),
                       low = int (length (filter (\<lambda>opp. priority opp = ''low'') opps))\<rparr>,
                    focusArea = focus_area\<rparr>)))"

section \<open>Notions used to state the properties\<close>

text \<open>The loop classes of the performance analyzer: \<^verbatim>\<open>ast.For\<close> and \<^verbatim>\<open>ast.While\<close>.\<close>

fun is_loop :: "node \<Rightarrow> bool" where
  "is_loop (For target iter body orelse lineno) = True"
| "is_loop (While test body orelse lineno) = True"
| "is_loop n = False"



text \<open>What one node of the walk adds to each list of the performance analyzer.\<close>

fun loop_entries :: "int \<Rightarrow> node \<Rightarrow> loop_entry list" where
  "loop_entries d (For target iter body orelse lineno) =
     [\<lparr>loop_type = ''for'', depth = d, loop_line = lineno, column = 0\<rparr>]"
| "loop_entries d (While test body orelse lineno) =
     [\<lparr>loop_type = ''while'', depth = d, loop_line = lineno, column = 0\<rparr>]"
| "loop_entries d n = []"

fun function_entries :: "node \<Rightarrow> function_entry list" where
  "function_entries (FunctionDef nm a body decorator_list returns lineno end_lineno) =
     [\<lparr>fn_name = nm, fn_line = lineno, params = int (length (args a))\<rparr>]"
| "function_entries n = []"

definition loop_issues :: "node \<Rightarrow> concat_issue list" where
  "loop_issues n = (if is_loop n then concat (map concat_check (walk n)) else [])"

text \<open>
  The source text
  \<^verbatim>\<open>
    for i in a:
        for j in b:
            pass
  \<close>
  and its tree: a \<^verbatim>\<open>Name\<close> is an \<open>Other\<close> node with its context object as only child,
  \<^verbatim>\<open>pass\<close> an \<open>Other\<close> node without children.
\<close>

definition nested_loops_source :: string where
  "nested_loops_source = ''for i in a:\<newline>    for j in b:\<newline>        pass''"

definition nested_loops_tree :: node where
  "nested_loops_tree =
     Module [For (Other [Other []]) (Other [Other []])
               [For (Other [Other []]) (Other [Other []]) [Other []] [] 2]
               [] 1]"





text \<open>What one node of the walk adds to each list of the quality analyzer.\<close>

fun function_metrics_of :: "node \<Rightarrow> function_metrics list" where
  "function_metrics_of (FunctionDef nm a body decorator_list returns lineno end_lineno) =
     [\<lparr>name = nm, line = lineno,
       cyclomatic = calculate_cyclomatic_complexity
                      (FunctionDef nm a body decorator_list returns lineno end_lineno),
       cognitive = calculate_cognitive_complexity
                      (FunctionDef nm a body decorator_list returns lineno end_lineno),
       nestingDepth = 0,
       decisionPoints = calculate_cyclomatic_complexity
                      (FunctionDef nm a body decorator_list returns lineno end_lineno) - 1\<rparr>]"
| "function_metrics_of n = []"

fun long_parameter_smells :: "node \<Rightarrow> smell list" where
  "long_parameter_smells (FunctionDef nm a body decorator_list returns lineno end_lineno) =
     (if length (args a) > 5 then [long_parameter_smell nm lineno (length (args a))] else [])"
| "long_parameter_smells n = []"

fun long_method_smells :: "node \<Rightarrow> smell list" where
  "long_method_smells (FunctionDef nm a body decorator_list returns lineno end_lineno) =
     (case end_lineno of
        None \<Rightarrow> []
      | Some e \<Rightarrow> (if e \<noteq> 0 \<and> e - lineno > 50 then [long_method_smell nm lineno (e - lineno)]
                   else []))"
| "long_method_smells n = []"

fun magic_number_smells :: "node \<Rightarrow> smell list" where
  "magic_number_smells (Constant v lineno) =
     (case int_value v of
        None \<Rightarrow> []
      | Some i \<Rightarrow> (if i > 10 then [magic_number_smell (str_int i) lineno] else []))"
| "magic_number_smells n = []"

definition handler_smells :: "excepthandler \<Rightarrow> smell list" where
  "handler_smells h =
     (if handler_body h = [] then [empty_catch_smell (handler_lineno h)] else [])"

fun empty_catch_smells :: "node \<Rightarrow> smell list" where
  "empty_catch_smells (Try body handlers orelse finalbody) = concat (map handler_smells handlers)"
| "empty_catch_smells n = []"











text \<open>A \<^verbatim>\<open>try\<close> statement with one handler.\<close>

definition try_source :: string where
  "try_source = ''try:\<newline>    x = 1\<newline>except ValueError:\<newline>    pass''"

definition try_tree :: node where
  "try_tree =
     Module [Try [Other [Other [Other []], Constant (CInt 1) 2]]
                 [ExceptHandler (Some (Other [Other []])) None [Other []] 3] [] []]"

text \<open>
  What one node of the walk, and one numbered line of the text, add to the opportunity
  list of the refactoring analyzer, by type of opportunity.
\<close>

fun long_function_opportunities :: "string \<Rightarrow> node \<Rightarrow> opportunity list" where
  "long_function_opportunities file_path
       (FunctionDef nm a body decorator_list returns lineno end_lineno) =
     (case end_lineno of
        None \<Rightarrow> []
      | Some e \<Rightarrow> (if e \<noteq> 0 \<and> e - lineno > 30
                   then [long_function_opportunity file_path nm lineno (e - lineno)] else []))"
| "long_function_opportunities file_path n = []"

fun long_parameter_opportunities :: "string \<Rightarrow> node \<Rightarrow> opportunity list" where
  "long_parameter_opportunities file_path
       (FunctionDef nm a body decorator_list returns lineno end_lineno) =
     (if length (args a) > 5
      then [long_parameter_opportunity file_path nm lineno (length (args a))] else [])"
| "long_parameter_opportunities file_path n = []"

definition long_line_opportunities :: "string \<Rightarrow> nat \<times> string \<Rightarrow> opportunity list" where
  "long_line_opportunities file_path p =
     (if length (snd p) > 100 \<and> \<not> startswith (strip (snd p)) ''#''
      then [long_line_opportunity file_path (fst p) (snd p)] else [])"

definition magic_number_opportunities :: "string \<Rightarrow> nat \<times> string \<Rightarrow> opportunity list" where
  "magic_number_opportunities file_path p =
     (case magic_search False (snd p) of
        None \<Rightarrow> []
      | Some m \<Rightarrow>
          (if \<not> startswith (strip (snd p)) ''#''
              \<and> int_of_digits m \<notin> set [0, 1, - 1, 2, 10, 100, 1000]
           then [magic_number_opportunity file_path (fst p) (int_of_digits m)] else []))"

text \<open>
  All opportunities of a file that the two loops detect when nothing raises: those of the
  nodes in the order of the walk, then those of the lines.
\<close>

definition all_opportunities :: "string \<Rightarrow> string \<Rightarrow> node \<Rightarrow> opportunity list" where
  "all_opportunities file_path content tree =
     concat (map (\<lambda>n. long_function_opportunities file_path n
                       @ long_parameter_opportunities file_path n) (walk tree))
     @ concat (map (\<lambda>p. long_line_opportunities file_path p
                         @ magic_number_opportunities file_path p)
                (enumerate 0 (split_lines content)))"

text \<open>
  A line whose visit raises: it is not a comment line and the pattern matches a run of
  more digits than the limit of \<^verbatim>\<open>int\<close>.
\<close>

definition line_raises :: "nat \<times> string \<Rightarrow> bool" where
  "line_raises p =
     (case magic_search False (snd p) of
        None \<Rightarrow> False
      | Some m \<Rightarrow> \<not> startswith (strip (snd p)) ''#'' \<and> length m > int_max_str_digits)"

text \<open>
  A node whose visit raises in the quality analyzer: an integer constant greater than 10
  with more decimal digits than the limit of \<^verbatim>\<open>str\<close>.
\<close>

fun constant_raises :: "node \<Rightarrow> bool" where
  "constant_raises (Constant v lineno) =
     (case int_value v of
        None \<Rightarrow> False
      | Some i \<Rightarrow> i > 10 \<and> length (str_nat (nat i)) > int_max_str_digits)"
| "constant_raises n = False"

text \<open>
  A function of eight parameters, two of them plain positional. Each \<^verbatim>\<open>arg\<close> is an
  \<open>Other\<close> node; the four keyword-only parameters have no default.
\<close>

definition many_parameters_source :: string where
  "many_parameters_source = ''def f(a, b, *args, c, d, e, f, **kwargs):\<newline>    pass''"

definition many_parameters_tree :: node where
  "many_parameters_tree =
     Module [FunctionDef ''f''
       (Arguments [] [Other [], Other []] (Some (Other []))
          [Other [], Other [], Other [], Other []] [None, None, None, None]
          (Some (Other [])) [])
       [Other []] [] None 1 (Some 2)]"

text \<open>The message of the \<^verbatim>\<open>FileNotFoundError\<close> that \<^verbatim>\<open>open\<close> raises for a missing file.\<close>

definition missing_file_message :: string where
  "missing_file_message = ''[Errno 2] No such file or directory: 'missing.py'' @ [CHR 0x27]"

text \<open>
  A loop with the bound 1000, as in the fixture: the call \<^verbatim>\<open>range(1000)\<close> is an \<open>Other\<close>
  node with the name and the constant as children.
\<close>

definition range_loop_source :: string where
  "range_loop_source = ''for i in range(1000):\<newline>    pass''"

definition range_loop_tree :: node where
  "range_loop_tree =
     Module [For (Other [Other []]) (Other [Other [Other []], Constant (CInt 1000) 1])
               [Other []] [] 1]"

text \<open>
  A text of three lines: 101 characters, 100 characters, and a comment of 152
  characters. The first two lines are expression statements of one name each.
\<close>

definition long_lines_source :: string where
  "long_lines_source =
     replicate 101 CHR ''x'' @ ''\<newline>'' @ replicate 100 CHR ''x'' @ ''\<newline>''
       @ ''# '' @ replicate 150 CHR ''y''"

definition long_lines_tree :: node where
  "long_lines_tree = Module [Other [Other [Other []]], Other [Other [Other []]]]"

text \<open>
  A file of one line, the assignment of a string literal of 4301 digits:
  \<^verbatim>\<open>s = "111...1"\<close>. The parser accepts it, since the digits are the text of a string.
\<close>

definition digit_run :: string where
  "digit_run = replicate 4301 CHR ''1''"

definition digit_string_source :: string where
  "digit_string_source = ''s = '' @ [CHR 0x22] @ digit_run @ [CHR 0x22]"

definition digit_string_tree :: node where
  "digit_string_tree = Module [Other [Other [Other []], Constant (CStr digit_run) 1]]"

section \<open>Properties of the traversal\<close>

lemma mset_walk_queue: "mset (walk_queue q) = (\<Sum>n\<leftarrow>q. mset (subtree n))"
proof (induction q rule: walk_queue.induct)
  case 1
  show ?case by simp
next
  case (2 n todo)
  have "mset (subtree n) = {#n#} + (\<Sum>c\<leftarrow>iter_child_nodes n. mset (subtree c))"
    by (subst subtree.simps) (simp add: mset_concat comp_def)
  with 2 show ?case by (simp add: ac_simps)
qed

lemma mset_walk: "mset (walk n) = mset (subtree n)"
  by (simp only: walk_def mset_walk_queue) simp

lemma set_walk: "set (walk n) = set (subtree n)"
  using mset_walk[of n] by (metis set_mset_mset)

lemma foldl_append_concat: "foldl (\<lambda>acc x. acc @ f x) acc xs = acc @ concat (map f xs)"
  by (induction xs arbitrary: acc) auto




section \<open>Properties of the performance analyzer\<close>

lemma perf_visit_eq:
  "perf_visit s n =
     s\<lparr>st_loops := st_loops s @ loop_entries (int (length (loop_stack s)) + 1) n,
       st_functions := st_functions s @ function_entries n,
       st_string_concat_issues := st_string_concat_issues s @ loop_issues n\<rparr>"
  by (cases n) (simp_all add: loop_visit_def loop_issues_def foldl_append_concat)

text \<open>
  The stack is empty again after every step, so the whole loop leaves it as it was and
  every step reads the same depth from it.
\<close>

lemma perf_fold:
  "foldl perf_visit s ns =
     s\<lparr>st_loops := st_loops s @ concat (map (loop_entries (int (length (loop_stack s)) + 1)) ns),
       st_functions := st_functions s @ concat (map function_entries ns),
       st_string_concat_issues := st_string_concat_issues s @ concat (map loop_issues ns)\<rparr>"
proof (induction ns arbitrary: s)
  case Nil
  show ?case by simp
next
  case (Cons n ns)
  show ?case by (simp only: foldl_Cons Cons.IH) (simp add: perf_visit_eq)
qed

lemma performance_loops:
  "loops (performance_analyze_file (Loaded content tree)) = concat (map (loop_entries 1) (walk tree))"
  by (simp add: performance_analyze_file_def perf_fold perf_init_def)

lemma performance_functions:
  "perf_functions (performance_analyze_file (Loaded content tree)) =
     concat (map function_entries (walk tree))"
  by (simp add: performance_analyze_file_def perf_fold perf_init_def)


lemma loop_entries_depth: "e \<in> set (loop_entries d n) \<Longrightarrow> depth e = d"
  by (cases n) auto

lemma loop_depth_always_one:
  "e \<in> set (loops (performance_analyze_file src)) \<Longrightarrow> depth e = 1"
proof (cases src)
  case (Raised msg)
  assume "e \<in> set (loops (performance_analyze_file src))"
  with Raised show ?thesis by (simp add: performance_analyze_file_def)
next
  case (Loaded content tree)
  assume "e \<in> set (loops (performance_analyze_file src))"
  with Loaded show ?thesis by (auto simp: performance_loops dest: loop_entries_depth)
qed

text \<open>
  Claim C1. A loop written directly inside another loop would have to be recorded with
  depth 2. On the two nested loops of \<open>nested_loops_source\<close> the analyzer records depth 1
  for the outer loop (line 1) and depth 1 again for the inner loop (line 2): the push and
  the pop are both done within the visit of one node of the flat walk, so the stack is
  empty whenever a loop is visited.
\<close>

theorem nested_loop_depths:
  "loops (performance_analyze_file (Loaded nested_loops_source nested_loops_tree)) =
     [\<lparr>loop_type = ''for'', depth = 1, loop_line = 1, column = 0\<rparr>,
      \<lparr>loop_type = ''for'', depth = 1, loop_line = 2, column = 0\<rparr>]"
  by (simp add: performance_loops nested_loops_tree_def walk_def)




section \<open>Properties of the quality analyzer\<close>

lemma functions_visit_eq: "functions_visit fs n = fs @ function_metrics_of n"
  by (cases n) (simp_all add: Let_def)

lemma functions_fold: "foldl functions_visit fs ns = fs @ concat (map function_metrics_of ns)"
  by (induction ns arbitrary: fs) (simp_all add: functions_visit_eq)






lemma subtree_self: "n \<in> set (subtree n)"
  by (subst subtree.simps) simp

lemma subtree_trans: "c \<in> set (subtree n) \<Longrightarrow> set (subtree c) \<subseteq> set (subtree n)"
proof (induction n rule: subtree.induct)
  case (1 n)
  from "1.prems" have "c = n \<or> (\<exists>k \<in> set (iter_child_nodes n). c \<in> set (subtree k))"
    by (subst (asm) subtree.simps) auto
  then show ?case
  proof
    assume "c = n" then show ?thesis by simp
  next
    assume "\<exists>k \<in> set (iter_child_nodes n). c \<in> set (subtree k)"
    then obtain k where k: "k \<in> set (iter_child_nodes n)" "c \<in> set (subtree k)" by blast
    then have "set (subtree c) \<subseteq> set (subtree k)" using "1.IH" by blast
    moreover have "set (subtree k) \<subseteq> set (subtree n)"
      using k(1) by (subst (2) subtree.simps) auto
    ultimately show ?thesis by blast
  qed
qed


lemma handler_fold:
  "foldl handler_visit s hs = s\<lparr>emptyCatches := emptyCatches s @ concat (map handler_smells hs)\<rparr>"
proof (induction hs arbitrary: s)
  case Nil
  show ?case by simp
next
  case (Cons h hs)
  show ?case by (cases h) (simp add: Cons.IH handler_smells_def)
qed

lemma py_str_Inr: "py_str i = Inr value_text \<Longrightarrow> value_text = str_int i"
  by (auto simp: py_str_def split: if_splits)

text \<open>A step of the second loop that does not raise adds the findings of its node.\<close>

lemma smells_visit_Inr:
  assumes "smells_visit s n = Inr s'"
  shows "s' =
     s\<lparr>longParameterLists := longParameterLists s @ long_parameter_smells n,
       longMethods := longMethods s @ long_method_smells n,
       magicNumbers := magicNumbers s @ magic_number_smells n,
       emptyCatches := emptyCatches s @ empty_catch_smells n\<rparr>"
proof (cases n)
  case (Constant v lineno)
  with assms show ?thesis
    by (auto simp: Let_def dest: py_str_Inr split: option.splits if_splits sum.splits)
next
  case (FunctionDef nm a body decorator_list returns lineno end_lineno)
  with assms show ?thesis
    by (auto simp: Let_def split: option.splits if_splits)
qed (use assms in \<open>auto simp: handler_fold\<close>)

lemma smells_fold_Inr:
  "fold_raise smells_visit s ns = Inr s' \<Longrightarrow>
   s' =
     s\<lparr>longParameterLists := longParameterLists s @ concat (map long_parameter_smells ns),
       longMethods := longMethods s @ concat (map long_method_smells ns),
       magicNumbers := magicNumbers s @ concat (map magic_number_smells ns),
       emptyCatches := emptyCatches s @ concat (map empty_catch_smells ns)\<rparr>"
proof (induction ns arbitrary: s)
  case Nil
  then show ?case by simp
next
  case (Cons n ns)
  from Cons.prems obtain s1 where v: "smells_visit s n = Inr s1"
    and f: "fold_raise smells_visit s1 ns = Inr s'"
    by (auto split: sum.splits)
  show ?case
    unfolding Cons.IH[OF f] smells_visit_Inr[OF v] by simp
qed

text \<open>
  The report of a parsed file: either a step of the second loop raised and the report is
  the one of the \<^verbatim>\<open>except\<close> clause, or the lists of the report are the findings of all
  nodes of the walk.
\<close>

lemma quality_loaded_cases:
  obtains (raised) e where
      "quality_analyze_file (Loaded content tree) = quality_error_report e"
  | (analysed)
      "quality_error (quality_analyze_file (Loaded content tree)) = None"
      "complexity_functions (complexity (quality_analyze_file (Loaded content tree))) =
         concat (map function_metrics_of (walk tree))"
      "mostComplexFunction (complexity (quality_analyze_file (Loaded content tree))) =
         (case py_max cyclomatic (concat (map function_metrics_of (walk tree))) of
            None \<Rightarrow> None | Some f \<Rightarrow> Some (name f))"
      "longParameterLists (smells_of (quality_analyze_file (Loaded content tree))) =
         concat (map long_parameter_smells (walk tree))"
      "magicNumbers (smells_of (quality_analyze_file (Loaded content tree))) =
         concat (map magic_number_smells (walk tree))"
      "emptyCatches (smells_of (quality_analyze_file (Loaded content tree))) =
         concat (map empty_catch_smells (walk tree))"
proof (cases "fold_raise smells_visit smells_init (walk tree)")
  case (Inl e)
  then have "quality_analyze_file (Loaded content tree) = quality_error_report e"
    by (simp add: quality_analyze_file_def Let_def)
  then show ?thesis by (rule raised)
next
  case (Inr sm)
  note sm = smells_fold_Inr[OF Inr]
  show ?thesis
  proof (rule analysed)
    show "quality_error (quality_analyze_file (Loaded content tree)) = None"
      using Inr by (simp add: quality_analyze_file_def Let_def)
    show "complexity_functions (complexity (quality_analyze_file (Loaded content tree))) =
         concat (map function_metrics_of (walk tree))"
      using Inr by (simp add: quality_analyze_file_def Let_def functions_fold)
    show "mostComplexFunction (complexity (quality_analyze_file (Loaded content tree))) =
         (case py_max cyclomatic (concat (map function_metrics_of (walk tree))) of
            None \<Rightarrow> None | Some f \<Rightarrow> Some (name f))"
      using Inr by (simp add: quality_analyze_file_def Let_def functions_fold)
    show "longParameterLists (smells_of (quality_analyze_file (Loaded content tree))) =
         concat (map long_parameter_smells (walk tree))"
      using Inr by (simp add: quality_analyze_file_def Let_def sm smells_init_def)
    show "magicNumbers (smells_of (quality_analyze_file (Loaded content tree))) =
         concat (map magic_number_smells (walk tree))"
      using Inr by (simp add: quality_analyze_file_def Let_def sm smells_init_def)
    show "emptyCatches (smells_of (quality_analyze_file (Loaded content tree))) =
         concat (map empty_catch_smells (walk tree))"
      using Inr by (simp add: quality_analyze_file_def Let_def sm smells_init_def)
  qed
qed

lemma quality_error_report_fields:
  "quality_error (quality_error_report e) = Some e"
  "complexity_functions (complexity (quality_error_report e)) = []"
  "mostComplexFunction (complexity (quality_error_report e)) = None"
  "longParameterLists (smells_of (quality_error_report e)) = []"
  "magicNumbers (smells_of (quality_error_report e)) = []"
  "emptyCatches (smells_of (quality_error_report e)) = []"
  by (simp_all add: quality_error_report_def)




lemma quality_long_parameter_lists:
  assumes "quality_error (quality_analyze_file (Loaded content tree)) = None"
  shows "longParameterLists (smells_of (quality_analyze_file (Loaded content tree))) =
     concat (map long_parameter_smells (walk tree))"
  using assms by (cases rule: quality_loaded_cases[of content tree])
    (simp_all add: quality_error_report_fields)

lemma quality_long_parameter_subset:
  "set (longParameterLists (smells_of (quality_analyze_file (Loaded content tree))))
   \<subseteq> set (concat (map long_parameter_smells (walk tree)))"
  by (cases rule: quality_loaded_cases[of content tree])
    (simp_all add: quality_error_report_fields)

lemma quality_magic_numbers:
  assumes "quality_error (quality_analyze_file (Loaded content tree)) = None"
  shows "magicNumbers (smells_of (quality_analyze_file (Loaded content tree))) =
     concat (map magic_number_smells (walk tree))"
  using assms by (cases rule: quality_loaded_cases[of content tree])
    (simp_all add: quality_error_report_fields)

lemma quality_magic_numbers_subset:
  "set (magicNumbers (smells_of (quality_analyze_file (Loaded content tree))))
   \<subseteq> set (concat (map magic_number_smells (walk tree)))"
  by (cases rule: quality_loaded_cases[of content tree])
    (simp_all add: quality_error_report_fields)

lemma quality_empty_catches_subset:
  "set (emptyCatches (smells_of (quality_analyze_file (Loaded content tree))))
   \<subseteq> set (concat (map empty_catch_smells (walk tree)))"
  by (cases rule: quality_loaded_cases[of content tree])
    (simp_all add: quality_error_report_fields)

lemma child_in_subtree: "c \<in> set (iter_child_nodes n) \<Longrightarrow> c \<in> set (subtree n)"
  using subtree_self[of c] by (subst subtree.simps) auto






lemma handler_in_subtree:
  assumes "Try body handlers orelse finalbody \<in> set (subtree tree)" and "h \<in> set handlers"
  shows "Handler h \<in> set (subtree tree)"
proof -
  have "Handler h \<in> set (iter_child_nodes (Try body handlers orelse finalbody))"
    using assms(2) by simp
  then have "Handler h \<in> set (subtree (Try body handlers orelse finalbody))"
    by (rule child_in_subtree)
  with subtree_trans[OF assms(1)] show ?thesis by blast
qed

text \<open>When the second loop of the quality analyzer raises.\<close>

lemma fold_raise_raises:
  assumes "\<And>s x. (\<exists>e. f s x = Inl e) \<longleftrightarrow> R x"
  shows "(\<exists>e. fold_raise f s xs = Inl e) \<longleftrightarrow> (\<exists>x\<in>set xs. R x)"
proof (induction xs arbitrary: s)
  case Nil
  show ?case by simp
next
  case (Cons x xs)
  show ?case
  proof (cases "f s x")
    case (Inl e)
    then have "R x" using assms by blast
    with Inl show ?thesis by simp
  next
    case (Inr s')
    then have "\<not> R x" using assms[of s x] by simp
    with Inr Cons.IH[of s'] show ?thesis by simp
  qed
qed

lemma smells_visit_raises: "(\<exists>e. smells_visit s n = Inl e) \<longleftrightarrow> constant_raises n"
proof (cases n)
  case (Constant v lineno)
  then show ?thesis
    by (auto simp: py_str_def split: option.splits if_splits sum.splits)
next
  case (FunctionDef nm a body decorator_list returns lineno end_lineno)
  then show ?thesis by (simp add: Let_def split: option.splits)
qed simp_all

lemma quality_error_iff:
  "quality_error (quality_analyze_file (Loaded content tree)) = None \<longleftrightarrow>
     (\<forall>n\<in>set (subtree tree). \<not> constant_raises n)"
proof -
  have r: "(\<exists>e. fold_raise smells_visit smells_init (walk tree) = Inl e) \<longleftrightarrow>
      (\<exists>n\<in>set (subtree tree). constant_raises n)"
    using fold_raise_raises[of smells_visit constant_raises smells_init "walk tree"]
      smells_visit_raises by (simp add: set_walk)
  show ?thesis
  proof (cases "fold_raise smells_visit smells_init (walk tree)")
    case (Inl e)
    with r show ?thesis
      by (auto simp: quality_analyze_file_def Let_def quality_error_report_def)
  next
    case (Inr sm)
    with r show ?thesis
      by (auto simp: quality_analyze_file_def Let_def)
  qed
qed







text \<open>
  Claim C9. The grammar gives every exception handler a body of at least one statement.
  For a tree with that property, \<^verbatim>\<open>emptyCatches\<close> is empty: the branch that reports an
  empty handler is never taken.
\<close>

theorem empty_catches_unreachable:
  assumes "\<forall>h. Handler h \<in> set (subtree tree) \<longrightarrow> handler_body h \<noteq> []"
  shows "emptyCatches (smells_of (quality_analyze_file (Loaded content tree))) = []"
proof -
  have "empty_catch_smells n = []" if n: "n \<in> set (subtree tree)" for n
  proof (cases n)
    case (Try body handlers orelse finalbody)
    have "handler_smells h = []" if "h \<in> set handlers" for h
      using handler_in_subtree[OF n[unfolded Try] that] assms
      by (simp add: handler_smells_def)
    with Try show ?thesis by simp
  qed simp_all
  then have "concat (map empty_catch_smells (walk tree)) = []"
    by (simp add: set_walk)
  with quality_empty_catches_subset[of content tree] show ?thesis by simp
qed

theorem empty_catches_unreachable_witness:
  "emptyCatches (smells_of (quality_analyze_file (Loaded try_source try_tree))) = []"
proof -
  have h: "\<forall>h. Handler h \<in> set (subtree try_tree) \<longrightarrow> handler_body h \<noteq> []"
    by (auto simp: try_tree_def subtree.simps opt_nodes_def)
  show ?thesis using empty_catches_unreachable[OF h] .
qed

section \<open>Properties of the conversions between numbers and strings\<close>

lemma digit_char_code: "d < 10 \<Longrightarrow> of_char (digit_char d) = (48 + d :: nat)"
proof -
  assume "d < 10"
  then have "d \<in> {0, 1, 2, 3, 4, 5, 6, 7, 8, 9}" by auto
  then show ?thesis by (auto simp: digit_char_def)
qed

lemma int_of_digits_snoc:
  "int_of_digits (ds @ [c]) = 10 * int_of_digits ds + (int (of_char c) - 48)"
  by (simp add: int_of_digits_def)

lemma int_of_digits_str_nat: "int_of_digits (str_nat n) = int n"
proof (induction n rule: str_nat.induct)
  case (1 n)
  show ?case
  proof (cases "n < 10")
    case True
    then show ?thesis
      by (subst str_nat.simps) (simp add: int_of_digits_def digit_char_code)
  next
    case False
    then have "int_of_digits (str_nat (n div 10)) = int (n div 10)" by (rule "1.IH")
    moreover have "10 * int (n div 10) + int (n mod 10) = int n"
      by (metis mult_div_mod_eq of_nat_add of_nat_mult of_nat_numeral)
    ultimately show ?thesis using False
      by (subst str_nat.simps) (simp add: int_of_digits_snoc digit_char_code)
  qed
qed

lemma str_nat_inj: "str_nat m = str_nat n \<Longrightarrow> m = n"
  by (metis int_of_digits_str_nat of_nat_eq_iff)

lemma str_nat_digits: "c \<in> set (str_nat n) \<Longrightarrow> is_digit c"
proof (induction n rule: str_nat.induct)
  case (1 n)
  show ?case
  proof (cases "n < 10")
    case True
    with "1.prems" show ?thesis
      by (subst (asm) str_nat.simps) (simp add: is_digit_def digit_char_code)
  next
    case False
    with "1.prems" "1.IH" show ?thesis
      by (subst (asm) str_nat.simps) (auto simp: is_digit_def digit_char_code)
  qed
qed

lemma str_nat_no_minus: "str_nat n \<noteq> CHR ''-'' # s"
proof
  assume "str_nat n = CHR ''-'' # s"
  then have "CHR ''-'' \<in> set (str_nat n)" by simp
  then have "is_digit CHR ''-''" by (rule str_nat_digits)
  then show False by (simp add: is_digit_def)
qed

lemma str_int_inj: "str_int a = str_int b \<Longrightarrow> a = b"
proof -
  assume eq: "str_int a = str_int b"
  show ?thesis
  proof (cases "a < 0")
    case True
    show ?thesis
    proof (cases "b < 0")
      case b: True
      with True eq have "nat (- a) = nat (- b)" by (auto simp: str_int_def dest: str_nat_inj)
      with True b show ?thesis by simp
    next
      case False
      with True eq have "str_nat (nat b) = CHR ''-'' # str_nat (nat (- a))"
        by (simp add: str_int_def)
      then show ?thesis using str_nat_no_minus by blast
    qed
  next
    case False
    show ?thesis
    proof (cases "b < 0")
      case True
      with False eq have "str_nat (nat a) = CHR ''-'' # str_nat (nat (- b))"
        by (simp add: str_int_def)
      then show ?thesis using str_nat_no_minus by blast
    next
      case b: False
      with False eq have "nat a = nat b" by (auto simp: str_int_def dest: str_nat_inj)
      with False b show ?thesis by simp
    qed
  qed
qed

lemma magic_number_smell_inj:
  "magic_number_smell (str_int v) l = magic_number_smell (str_int v') l' \<Longrightarrow> v = v'"
  by (auto simp: magic_number_smell_def dest: str_int_inj)

lemma magic_number_opportunity_inj:
  "magic_number_opportunity f i v = magic_number_opportunity f' i' v' \<Longrightarrow> v = v'"
  by (auto simp: magic_number_opportunity_def dest: str_int_inj)

text \<open>
  The result of \<^verbatim>\<open>int\<close> on a run of digits within the limit is a number that \<^verbatim>\<open>str\<close>
  formats without raising.
\<close>

lemma int_of_digits_bound:
  "\<forall>c\<in>set ds. is_digit c \<Longrightarrow> 0 \<le> int_of_digits ds \<and> int_of_digits ds < 10 ^ length ds"
proof (induction ds rule: rev_induct)
  case Nil
  show ?case by (simp add: int_of_digits_def)
next
  case (snoc c ds)
  then have ih: "0 \<le> int_of_digits ds" "int_of_digits ds < 10 ^ length ds" by simp_all
  from snoc.prems have "is_digit c" by simp
  then have d: "0 \<le> int (of_char c) - 48" "int (of_char c) - 48 \<le> 9"
    by (simp_all add: is_digit_def Let_def)
  from ih(2) have "int_of_digits ds + 1 \<le> 10 ^ length ds" by simp
  then have "10 * (int_of_digits ds + 1) \<le> 10 * 10 ^ length ds" by simp
  with ih d show ?case by (simp add: int_of_digits_snoc)
qed

lemma str_nat_length: "n < 10 ^ k \<Longrightarrow> 0 < k \<Longrightarrow> length (str_nat n) \<le> k"
proof (induction n arbitrary: k rule: str_nat.induct)
  case (1 n)
  show ?case
  proof (cases "n < 10")
    case True
    with "1.prems" show ?thesis by (subst str_nat.simps) simp
  next
    case False
    from "1.prems" obtain j where k: "k = Suc j" by (cases k) simp_all
    from False "1.prems" k have j: "0 < j" by (cases j) simp_all
    from "1.prems" k have "n div 10 < 10 ^ j" by (simp add: less_mult_imp_div_less mult.commute)
    from "1.IH"[OF False this j] have "length (str_nat (n div 10)) \<le> j" .
    with False k show ?thesis by (subst str_nat.simps) simp
  qed
qed

lemma py_str_int_of_digits:
  assumes "\<forall>c\<in>set ds. is_digit c" and "ds \<noteq> []" and "py_int ds = Inr num"
  shows "py_str num = Inr (str_int num)"
proof -
  from assms(3) have l: "length ds \<le> int_max_str_digits" and n: "num = int_of_digits ds"
    by (auto simp: py_int_def split: if_splits)
  from int_of_digits_bound[OF assms(1)] n have b: "0 \<le> num" "num < 10 ^ length ds" by simp_all
  then have "nat \<bar>num\<bar> < 10 ^ length ds"
    by (simp add: nat_less_iff)
  moreover from assms(2) have "0 < length ds" by simp
  ultimately have "length (str_nat (nat \<bar>num\<bar>)) \<le> length ds" by (rule str_nat_length)
  with l show ?thesis by (simp add: py_str_def)
qed

lemma magic_search_digits:
  "magic_search prev s = Some m \<Longrightarrow> (\<forall>c\<in>set m. is_digit c) \<and> 3 \<le> length m"
proof (induction prev s rule: magic_search.induct)
  case (1 prev)
  then show ?case by simp
next
  case (2 prev c cs)
  show ?case
  proof (cases "\<not> prev \<and> length (takeWhile is_digit (c # cs)) \<ge> 3
      \<and> (case dropWhile is_digit (c # cs) of [] \<Rightarrow> True | r # rs \<Rightarrow> \<not> is_word r)")
    case True
    with "2.prems" have "m = takeWhile is_digit (c # cs)"
      by (simp add: Let_def del: takeWhile.simps dropWhile.simps)
    with True show ?thesis by (auto dest: set_takeWhileD simp del: takeWhile.simps)
  next
    case False
    with "2.prems" have "magic_search (is_word c) cs = Some m"
      by (simp add: Let_def del: takeWhile.simps dropWhile.simps)
    with "2.IH" False show ?thesis
      by (simp add: Let_def del: takeWhile.simps dropWhile.simps)
  qed
qed

section \<open>Properties of the refactoring analyzer\<close>

lemma function_visit_eq:
  "function_visit file_path opps n =
     opps @ long_function_opportunities file_path n @ long_parameter_opportunities file_path n"
  by (cases n) (simp_all add: Let_def split: option.splits)

lemma function_visit_fold:
  "foldl (function_visit file_path) opps ns =
     opps @ concat (map (\<lambda>n. long_function_opportunities file_path n
                              @ long_parameter_opportunities file_path n) ns)"
  by (induction ns arbitrary: opps) (simp_all add: function_visit_eq)

text \<open>A step of the loop over the lines that does not raise adds the findings of its line.\<close>

lemma line_visit_Inr:
  assumes "line_visit file_path opps p = Inr opps'"
  shows "opps' =
     opps @ long_line_opportunities file_path p @ magic_number_opportunities file_path p"
  using assms
  by (cases p)
    (auto simp: line_visit_def long_line_opportunities_def magic_number_opportunities_def
      py_int_def Let_def split: option.splits if_splits sum.splits)

lemma line_fold_Inr:
  "fold_raise (line_visit file_path) opps ps = Inr opps' \<Longrightarrow>
   opps' = opps @ concat (map (\<lambda>p. long_line_opportunities file_path p
                                     @ magic_number_opportunities file_path p) ps)"
proof (induction ps arbitrary: opps)
  case Nil
  then show ?case by simp
next
  case (Cons p ps)
  from Cons.prems obtain opps1 where v: "line_visit file_path opps p = Inr opps1"
    and f: "fold_raise (line_visit file_path) opps1 ps = Inr opps'"
    by (auto split: sum.splits)
  show ?case
    unfolding Cons.IH[OF f] line_visit_Inr[OF v] by simp
qed


lemma detect_Inr:
  assumes "detect_opportunities file_path content tree = Inr detected"
  shows "detected = all_opportunities file_path content tree"
  using line_fold_Inr[OF assms[unfolded detect_opportunities_def Let_def]]
  by (simp add: all_opportunities_def function_visit_fold)


text \<open>
  The report of a parsed file: either a step of the loop over the lines raised and the
  report is the one of the \<^verbatim>\<open>except\<close> clause under every focus, or the opportunities are
  those of all nodes and lines, filtered by the focus.
\<close>

lemma refactoring_loaded_cases:
  obtains (raised) e where
      "\<And>focus_area. refactoring_analyze_file file_path focus_area (Loaded content tree) =
         refactoring_error_report focus_area e"
  | (analysed)
      "\<And>focus_area. refactoring_error
         (refactoring_analyze_file file_path focus_area (Loaded content tree)) = None"
      "\<And>focus_area. opportunities
         (refactoring_analyze_file file_path focus_area (Loaded content tree)) =
         filter_focus focus_area (all_opportunities file_path content tree)"
proof (cases "detect_opportunities file_path content tree")
  case (Inl e)
  then have "\<And>focus_area. refactoring_analyze_file file_path focus_area (Loaded content tree) =
         refactoring_error_report focus_area e"
    by (simp add: refactoring_analyze_file_def)
  then show ?thesis by (rule raised)
next
  case (Inr detected)
  note d = detect_Inr[OF Inr]
  show ?thesis
  proof (rule analysed)
    show "\<And>focus_area. refactoring_error
         (refactoring_analyze_file file_path focus_area (Loaded content tree)) = None"
      using Inr by (simp add: refactoring_analyze_file_def Let_def)
    show "\<And>focus_area. opportunities
         (refactoring_analyze_file file_path focus_area (Loaded content tree)) =
         filter_focus focus_area (all_opportunities file_path content tree)"
      using Inr d by (simp add: refactoring_analyze_file_def Let_def)
  qed
qed

lemma refactoring_error_report_fields:
  "refactoring_error (refactoring_error_report focus_area e) = Some e"
  "opportunities (refactoring_error_report focus_area e) = []"
  by (simp_all add: refactoring_error_report_def)

lemma refactoring_opportunities:
  assumes "refactoring_error
      (refactoring_analyze_file file_path focus_area (Loaded content tree)) = None"
  shows "opportunities (refactoring_analyze_file file_path focus_area (Loaded content tree)) =
     filter_focus focus_area (all_opportunities file_path content tree)"
  using assms by (cases rule: refactoring_loaded_cases[of file_path content tree])
    (simp_all add: refactoring_error_report_fields)

lemma refactoring_opportunities_subset:
  "set (opportunities (refactoring_analyze_file file_path focus_area (Loaded content tree)))
   \<subseteq> set (all_opportunities file_path content tree)"
proof (cases rule: refactoring_loaded_cases[of file_path content tree])
  case (raised e)
  then show ?thesis by (simp add: refactoring_error_report_fields)
next
  case analysed
  then show ?thesis by (auto simp: filter_focus_def)
qed


lemma filter_concat_map: "filter P (concat (map f xs)) = concat (map (\<lambda>x. filter P (f x)) xs)"
  by (induction xs) simp_all

lemma long_function_type:
  "opp \<in> set (long_function_opportunities file_path n) \<Longrightarrow> opp_type opp = ''LONG_FUNCTION''"
  by (cases n) (auto simp: long_function_opportunity_def split: option.splits if_splits)

lemma long_parameter_type:
  "opp \<in> set (long_parameter_opportunities file_path n) \<Longrightarrow> opp_type opp = ''LONG_PARAMETER_LIST''"
  by (cases n) (auto simp: long_parameter_opportunity_def split: if_splits)

lemma long_line_type:
  "opp \<in> set (long_line_opportunities file_path p) \<Longrightarrow> opp_type opp = ''LONG_LINE''"
  by (auto simp: long_line_opportunities_def long_line_opportunity_def split: if_splits)

lemma magic_number_type:
  "opp \<in> set (magic_number_opportunities file_path p) \<Longrightarrow> opp_type opp = ''MAGIC_NUMBER''"
  by (auto simp: magic_number_opportunities_def magic_number_opportunity_def
      split: option.splits if_splits)

lemma filter_all: "(\<And>x. x \<in> set xs \<Longrightarrow> P x) \<Longrightarrow> filter P xs = xs"
  by (induction xs) auto

lemma filter_none: "(\<And>x. x \<in> set xs \<Longrightarrow> \<not> P x) \<Longrightarrow> filter P xs = []"
  by (induction xs) auto

lemma filter_long_function:
  "filter (\<lambda>opp. opp_type opp = t) (long_function_opportunities file_path n) =
     (if t = ''LONG_FUNCTION'' then long_function_opportunities file_path n else [])"
proof (cases "t = ''LONG_FUNCTION''")
  case True
  then show ?thesis using filter_all[of _ "\<lambda>opp. opp_type opp = t"] long_function_type by auto
next
  case False
  then show ?thesis using filter_none[of _ "\<lambda>opp. opp_type opp = t"] long_function_type by auto
qed

lemma filter_long_parameter:
  "filter (\<lambda>opp. opp_type opp = t) (long_parameter_opportunities file_path n) =
     (if t = ''LONG_PARAMETER_LIST'' then long_parameter_opportunities file_path n else [])"
proof (cases "t = ''LONG_PARAMETER_LIST''")
  case True
  then show ?thesis using filter_all[of _ "\<lambda>opp. opp_type opp = t"] long_parameter_type by auto
next
  case False
  then show ?thesis using filter_none[of _ "\<lambda>opp. opp_type opp = t"] long_parameter_type by auto
qed

lemma filter_long_line:
  "filter (\<lambda>opp. opp_type opp = t) (long_line_opportunities file_path p) =
     (if t = ''LONG_LINE'' then long_line_opportunities file_path p else [])"
proof (cases "t = ''LONG_LINE''")
  case True
  then show ?thesis using filter_all[of _ "\<lambda>opp. opp_type opp = t"] long_line_type by auto
next
  case False
  then show ?thesis using filter_none[of _ "\<lambda>opp. opp_type opp = t"] long_line_type by auto
qed

lemma filter_magic_number:
  "filter (\<lambda>opp. opp_type opp = t) (magic_number_opportunities file_path p) =
     (if t = ''MAGIC_NUMBER'' then magic_number_opportunities file_path p else [])"
proof (cases "t = ''MAGIC_NUMBER''")
  case True
  then show ?thesis using filter_all[of _ "\<lambda>opp. opp_type opp = t"] magic_number_type by auto
next
  case False
  then show ?thesis using filter_none[of _ "\<lambda>opp. opp_type opp = t"] magic_number_type by auto
qed


lemma all_long_parameters:
  "filter (\<lambda>opp. opp_type opp = ''LONG_PARAMETER_LIST'')
       (all_opportunities file_path content tree) =
     concat (map (long_parameter_opportunities file_path) (walk tree))"
  by (simp add: all_opportunities_def filter_concat_map filter_long_function
      filter_long_parameter filter_long_line filter_magic_number)

lemma all_magic_numbers:
  "filter (\<lambda>opp. opp_type opp = ''MAGIC_NUMBER'') (all_opportunities file_path content tree) =
     concat (map (magic_number_opportunities file_path) (enumerate 0 (split_lines content)))"
  by (simp add: all_opportunities_def filter_concat_map filter_long_function
      filter_long_parameter filter_long_line filter_magic_number)

lemma filter_focus_subset: "set (filter_focus focus_area opps) \<subseteq> set opps"
  by (auto simp: filter_focus_def)


lemma long_parameter_smells_Nil:
  assumes "\<forall>nm a body dl ret lineno eln.
     n = FunctionDef nm a body dl ret lineno eln \<longrightarrow> length (args a) \<le> 5"
  shows "long_parameter_smells n = []"
  using assms by (cases n) auto

lemma long_parameter_opportunities_Nil:
  assumes "\<forall>nm a body dl ret lineno eln.
     n = FunctionDef nm a body dl ret lineno eln \<longrightarrow> length (args a) \<le> 5"
  shows "long_parameter_opportunities file_path n = []"
  using assms by (cases n) auto

lemma filter_subset_of:
  "set xs \<subseteq> set ys \<Longrightarrow> set (filter P xs) \<subseteq> set (filter P ys)"
  by auto

text \<open>
  Claim C10. The three analyzers count \<^verbatim>\<open>len(node.args.args)\<close>, the plain positional
  parameters: the performance report records that number as \<^verbatim>\<open>params\<close> of each
  function. When the analysis does not raise, the long-parameter-list findings of the
  quality analyzer, and those of the refactoring analyzer under the focus \<^verbatim>\<open>all\<close>, are
  those of the functions with more than 5 such parameters, with that number in the
  description; in every report, under every focus, each such finding is the one of a
  function with more than 5 such parameters. The fields \<open>vararg\<close>, \<open>kwonlyargs\<close> and
  \<open>kwarg\<close> are not read: when every function of the tree has at most 5 plain positional
  parameters, no function is flagged, whatever its other parameters are.
\<close>

theorem parameter_count_positional_only:
  "perf_functions (performance_analyze_file (Loaded content tree)) =
     concat (map function_entries (walk tree))
   \<and> (quality_error (quality_analyze_file (Loaded content tree)) = None \<longrightarrow>
        longParameterLists (smells_of (quality_analyze_file (Loaded content tree))) =
          concat (map long_parameter_smells (walk tree)))
   \<and> (refactoring_error (refactoring_analyze_file file_path ''all'' (Loaded content tree)) = None
        \<longrightarrow> filter (\<lambda>opp. opp_type opp = ''LONG_PARAMETER_LIST'')
          (opportunities (refactoring_analyze_file file_path ''all'' (Loaded content tree))) =
        concat (map (long_parameter_opportunities file_path) (walk tree)))
   \<and> set (longParameterLists (smells_of (quality_analyze_file (Loaded content tree))))
       \<subseteq> set (concat (map long_parameter_smells (walk tree)))
   \<and> (\<forall>focus_area. set (filter (\<lambda>opp. opp_type opp = ''LONG_PARAMETER_LIST'')
          (opportunities (refactoring_analyze_file file_path focus_area (Loaded content tree))))
       \<subseteq> set (concat (map (long_parameter_opportunities file_path) (walk tree))))
   \<and> ((\<forall>nm a body dl ret lineno eln.
          FunctionDef nm a body dl ret lineno eln \<in> set (subtree tree) \<longrightarrow> length (args a) \<le> 5)
        \<longrightarrow> longParameterLists (smells_of (quality_analyze_file (Loaded content tree))) = []
          \<and> (\<forall>focus_area. \<forall>opp\<in>set (opportunities
                (refactoring_analyze_file file_path focus_area (Loaded content tree))).
                opp_type opp \<noteq> ''LONG_PARAMETER_LIST''))"
proof -
  have sub: "set (filter (\<lambda>opp. opp_type opp = ''LONG_PARAMETER_LIST'')
          (opportunities (refactoring_analyze_file file_path focus_area (Loaded content tree))))
       \<subseteq> set (concat (map (long_parameter_opportunities file_path) (walk tree)))"
    for focus_area
    using filter_subset_of[OF refactoring_opportunities_subset[of file_path focus_area content tree],
        of "\<lambda>opp. opp_type opp = ''LONG_PARAMETER_LIST''"]
    by (simp only: all_long_parameters)
  show ?thesis
  proof (intro conjI impI allI ballI)
    show "perf_functions (performance_analyze_file (Loaded content tree)) =
       concat (map function_entries (walk tree))"
      by (rule performance_functions)
  next
    assume "quality_error (quality_analyze_file (Loaded content tree)) = None"
    then show "longParameterLists (smells_of (quality_analyze_file (Loaded content tree))) =
       concat (map long_parameter_smells (walk tree))"
      by (rule quality_long_parameter_lists)
  next
    assume "refactoring_error
        (refactoring_analyze_file file_path ''all'' (Loaded content tree)) = None"
    then show "filter (\<lambda>opp. opp_type opp = ''LONG_PARAMETER_LIST'')
         (opportunities (refactoring_analyze_file file_path ''all'' (Loaded content tree))) =
       concat (map (long_parameter_opportunities file_path) (walk tree))"
      by (simp add: refactoring_opportunities filter_focus_def all_long_parameters)
  next
    show "set (longParameterLists (smells_of (quality_analyze_file (Loaded content tree))))
       \<subseteq> set (concat (map long_parameter_smells (walk tree)))"
      by (rule quality_long_parameter_subset)
  next
    fix focus_area
    show "set (filter (\<lambda>opp. opp_type opp = ''LONG_PARAMETER_LIST'')
          (opportunities (refactoring_analyze_file file_path focus_area (Loaded content tree))))
       \<subseteq> set (concat (map (long_parameter_opportunities file_path) (walk tree)))"
      by (rule sub)
  next
    assume h: "\<forall>nm a body dl ret lineno eln.
            FunctionDef nm a body dl ret lineno eln \<in> set (subtree tree) \<longrightarrow> length (args a) \<le> 5"
    have "long_parameter_smells n = []" if "n \<in> set (walk tree)" for n
    proof (rule long_parameter_smells_Nil, intro allI impI)
      fix nm a body dl ret lineno eln
      assume "n = FunctionDef nm a body dl ret lineno eln"
      with that have "FunctionDef nm a body dl ret lineno eln \<in> set (subtree tree)"
        by (simp add: set_walk)
      with h show "length (args a) \<le> 5" by blast
    qed
    then have "concat (map long_parameter_smells (walk tree)) = []" by simp
    with quality_long_parameter_subset[of content tree]
    show "longParameterLists (smells_of (quality_analyze_file (Loaded content tree))) = []"
      by simp
  next
    fix focus_area opp
    assume h: "\<forall>nm a body dl ret lineno eln.
            FunctionDef nm a body dl ret lineno eln \<in> set (subtree tree) \<longrightarrow> length (args a) \<le> 5"
      and o: "opp \<in> set (opportunities
                  (refactoring_analyze_file file_path focus_area (Loaded content tree)))"
    have "long_parameter_opportunities file_path n = []" if "n \<in> set (walk tree)" for n
    proof (rule long_parameter_opportunities_Nil, intro allI impI)
      fix nm a body dl ret lineno eln
      assume "n = FunctionDef nm a body dl ret lineno eln"
      with that have "FunctionDef nm a body dl ret lineno eln \<in> set (subtree tree)"
        by (simp add: set_walk)
      with h show "length (args a) \<le> 5" by blast
    qed
    then have e: "concat (map (long_parameter_opportunities file_path) (walk tree)) = []"
      by simp
    show "opp_type opp \<noteq> ''LONG_PARAMETER_LIST''"
    proof
      assume "opp_type opp = ''LONG_PARAMETER_LIST''"
      with o have "opp \<in> set (filter (\<lambda>opp. opp_type opp = ''LONG_PARAMETER_LIST'')
          (opportunities (refactoring_analyze_file file_path focus_area (Loaded content tree))))"
        by simp
      with sub[of focus_area] e show False by simp
    qed
  qed
qed

text \<open>
  \<^verbatim>\<open>def f(a, b, *args, c, d, e, f, **kwargs)\<close> has eight parameters, two of them plain
  positional: the count is 2 and nothing is flagged.
\<close>

theorem parameter_count_witness:
  "perf_functions (performance_analyze_file (Loaded many_parameters_source many_parameters_tree)) =
     [\<lparr>fn_name = ''f'', fn_line = 1, params = 2\<rparr>]
   \<and> quality_error (quality_analyze_file
       (Loaded many_parameters_source many_parameters_tree)) = None
   \<and> refactoring_error (refactoring_analyze_file ''f.py'' ''all''
       (Loaded many_parameters_source many_parameters_tree)) = None
   \<and> longParameterLists (smells_of
       (quality_analyze_file (Loaded many_parameters_source many_parameters_tree))) = []
   \<and> filter (\<lambda>opp. opp_type opp = ''LONG_PARAMETER_LIST'')
       (opportunities (refactoring_analyze_file ''f.py'' ''all''
          (Loaded many_parameters_source many_parameters_tree))) = []"
proof -
  have h: "\<forall>nm a body dl ret lineno eln.
     FunctionDef nm a body dl ret lineno eln \<in> set (subtree many_parameters_tree)
       \<longrightarrow> length (args a) \<le> 5"
    by (auto simp: many_parameters_tree_def subtree.simps opt_nodes_def)
  have q: "quality_error (quality_analyze_file
       (Loaded many_parameters_source many_parameters_tree)) = None"
    by code_simp
  have r: "refactoring_error (refactoring_analyze_file ''f.py'' ''all''
       (Loaded many_parameters_source many_parameters_tree)) = None"
    by code_simp
  note t = parameter_count_positional_only[of many_parameters_source many_parameters_tree
      "''f.py''"]
  from t have a: "perf_functions
      (performance_analyze_file (Loaded many_parameters_source many_parameters_tree)) =
      concat (map function_entries (walk many_parameters_tree))"
    by (rule conjunct1)
  have e: "perf_functions
      (performance_analyze_file (Loaded many_parameters_source many_parameters_tree)) =
      [\<lparr>fn_name = ''f'', fn_line = 1, params = 2\<rparr>]"
    unfolding a by (simp add: many_parameters_tree_def walk_def opt_nodes_def)
  from t q have "longParameterLists (smells_of
       (quality_analyze_file (Loaded many_parameters_source many_parameters_tree))) =
       concat (map long_parameter_smells (walk many_parameters_tree))"
    by blast
  then have b: "longParameterLists (smells_of
       (quality_analyze_file (Loaded many_parameters_source many_parameters_tree))) = []"
    by (simp add: many_parameters_tree_def walk_def opt_nodes_def)
  from t r have "filter (\<lambda>opp. opp_type opp = ''LONG_PARAMETER_LIST'')
       (opportunities (refactoring_analyze_file ''f.py'' ''all''
          (Loaded many_parameters_source many_parameters_tree))) =
       concat (map (long_parameter_opportunities ''f.py'') (walk many_parameters_tree))"
    by blast
  then have d: "filter (\<lambda>opp. opp_type opp = ''LONG_PARAMETER_LIST'')
       (opportunities (refactoring_analyze_file ''f.py'' ''all''
          (Loaded many_parameters_source many_parameters_tree))) = []"
    by (simp add: many_parameters_tree_def walk_def opt_nodes_def)
  from t h have "longParameterLists (smells_of
       (quality_analyze_file (Loaded many_parameters_source many_parameters_tree))) = []"
    by blast
  from e q r b d show ?thesis by blast
qed

text \<open>
  The file of one line \<^verbatim>\<open>s = "111...1"\<close> with 4301 digits: the pattern matches the
  digits, and \<^verbatim>\<open>int\<close> raises on them.
\<close>

lemma split_lines_single: "CHR 0x0A \<notin> set s \<Longrightarrow> split_lines s = [s]"
  by (induction s) auto

lemma strip_first: "\<not> is_space c \<Longrightarrow> \<exists>t. strip (c # cs) = c # t"
proof -
  assume c: "\<not> is_space c"
  then have "dropWhile is_space (rev cs @ [c]) = dropWhile is_space (rev cs) @ [c]"
    by (induction "rev cs" arbitrary: cs) (simp_all add: dropWhile_append)
  with c show ?thesis by (simp add: strip_def)
qed

lemma not_comment_first:
  assumes "\<not> is_space c" and "c \<noteq> CHR ''#''"
  shows "\<not> startswith (strip (c # cs)) ''#''"
proof -
  from strip_first[OF assms(1)] obtain t where "strip (c # cs) = c # t" by blast
  with assms(2) show ?thesis by (simp add: startswith_def)
qed

lemma magic_search_run:
  assumes "\<forall>c\<in>set run. is_digit c" and "3 \<le> length run"
    and "\<not> is_word r" and "\<not> is_digit r"
  shows "magic_search False (run @ r # rs) = Some run"
proof -
  from assms(2) obtain c cs where run: "run = c # cs" by (cases run) simp_all
  have t: "takeWhile is_digit (run @ r # rs) = run"
    using assms(1,4) by (simp add: takeWhile_append2)
  have d: "dropWhile is_digit (run @ r # rs) = r # rs"
    using assms(1,4) by (simp add: dropWhile_append2)
  have "magic_search False ((c # cs) @ r # rs) = Some (c # cs)"
    using t d assms(2,3) unfolding run
    by (simp add: Let_def del: takeWhile.simps dropWhile.simps takeWhile_append dropWhile_append)
  then show ?thesis unfolding run .
qed

lemma digit_run_facts:
  "length digit_run = 4301"
  "\<forall>c\<in>set digit_run. is_digit c"
  "CHR 0x0A \<notin> set digit_run"
  by (simp_all add: digit_run_def is_digit_def)

lemma digit_string_lines: "split_lines digit_string_source = [digit_string_source]"
  by (rule split_lines_single) (simp add: digit_string_source_def digit_run_facts)


lemma digit_string_not_comment: "\<not> startswith (strip digit_string_source) ''#''"
proof -
  have "\<not> startswith (strip (CHR ''s'' # ('' = '' @ [CHR 0x22] @ digit_run @ [CHR 0x22]))) ''#''"
    by (rule not_comment_first) (simp_all add: is_space_def Let_def)
  then show ?thesis by (simp add: digit_string_source_def)
qed

lemma magic_search_skip:
  "\<not> is_digit c \<Longrightarrow> magic_search prev (c # cs) = magic_search (is_word c) cs"
  by (simp add: Let_def)

lemma digit_string_search: "magic_search False digit_string_source = Some digit_run"
proof -
  have run: "magic_search False (digit_run @ CHR 0x22 # []) = Some digit_run"
  proof (rule magic_search_run)
    show "\<forall>c\<in>set digit_run. is_digit c" by (rule digit_run_facts(2))
    show "3 \<le> length digit_run" by (simp add: digit_run_facts)
    show "\<not> is_word (CHR 0x22)" by (simp add: is_word_def Let_def)
    show "\<not> is_digit (CHR 0x22)" by (simp add: is_digit_def Let_def)
  qed
  have nd: "\<not> is_digit CHR ''s''" "\<not> is_digit CHR '' ''" "\<not> is_digit CHR ''=''"
    "\<not> is_digit (CHR 0x22)"
    by (simp_all add: is_digit_def Let_def)
  have nw: "\<not> is_word (CHR 0x22)" by (simp add: is_word_def Let_def)
  show ?thesis
    unfolding digit_string_source_def
    by (simp add: magic_search_skip nd nw run del: magic_search.simps)
qed

lemma digit_string_raises: "line_raises (0, digit_string_source)"
  by (simp add: line_raises_def digit_string_search digit_string_not_comment
      digit_run_facts int_max_str_digits_def)

lemma digit_string_report:
  "refactoring_analyze_file file_path focus_area (Loaded digit_string_source digit_string_tree) =
     refactoring_error_report focus_area (int_limit_message 4301)"
proof -
  have "line_visit file_path opps (0, digit_string_source) = Inl (int_limit_message 4301)"
    for opps
    by (simp add: line_visit_def digit_string_search digit_string_not_comment py_int_def
        digit_run_facts int_max_str_digits_def Let_def)
  then have "detect_opportunities file_path digit_string_source digit_string_tree =
      Inl (int_limit_message 4301)"
    by (simp add: detect_opportunities_def Let_def digit_string_lines)
  then show ?thesis by (simp add: refactoring_analyze_file_def)
qed

text \<open>
  Claim C5, as the code has it. When reading or parsing raises an exception with the
  message \<open>msg\<close>, each analyzer prints its report with \<^verbatim>\<open>error\<close> set to \<open>msg\<close>, every list
  empty and every number at its default 0 (\<^verbatim>\<open>mostComplexFunction\<close> is \<^verbatim>\<open>null\<close>, \<^verbatim>\<open>focusArea\<close>
  echoes the argument); the report has the fields of the report of a successful run.
  For every input, a report whose \<^verbatim>\<open>error\<close> is a string is that report, also when
  the exception comes from the analysis of a parsed file. The \<^verbatim>\<open>error\<close> string is the
  message of the exception, whatever it is.
\<close>

theorem error_shaped_reports:
  "performance_analyze_file (Raised msg) =
     \<lparr>perf_error = Some msg, loops = [], perf_functions = [], stringConcatIssues = []\<rparr>
   \<and> quality_analyze_file (Raised msg) =
     \<lparr>quality_error = Some msg,
      complexity = \<lparr>complexity_functions = [], totalFunctions = 0, averageComplexity = PyInt 0,
        maxComplexity = 0, averageCognitive = PyInt 0, totalDecisionPoints = 0,
        mostComplexFunction = None\<rparr>,
      smells_of = \<lparr>godObjects = [], longParameterLists = [], longMethods = [],
        magicNumbers = [], emptyCatches = [],
        classMetrics = \<lparr>class_total = 0, class_large = 0\<rparr>,
        functionMetrics = \<lparr>function_total = 0, function_long = 0\<rparr>\<rparr>\<rparr>
   \<and> refactoring_analyze_file file_path focus_area (Raised msg) =
     \<lparr>refactoring_error = Some msg, opportunities = [], totalOpportunities = 0,
      priorityBreakdown = \<lparr>high = 0, medium = 0, low = 0\<rparr>, focusArea = focus_area\<rparr>
   \<and> (perf_error (performance_analyze_file src) = Some e \<longrightarrow>
        performance_analyze_file src =
          \<lparr>perf_error = Some e, loops = [], perf_functions = [], stringConcatIssues = []\<rparr>)
   \<and> (quality_error (quality_analyze_file src) = Some e \<longrightarrow>
        quality_analyze_file src =
          \<lparr>quality_error = Some e,
           complexity = \<lparr>complexity_functions = [], totalFunctions = 0,
             averageComplexity = PyInt 0, maxComplexity = 0, averageCognitive = PyInt 0,
             totalDecisionPoints = 0, mostComplexFunction = None\<rparr>,
           smells_of = \<lparr>godObjects = [], longParameterLists = [], longMethods = [],
             magicNumbers = [], emptyCatches = [],
             classMetrics = \<lparr>class_total = 0, class_large = 0\<rparr>,
             functionMetrics = \<lparr>function_total = 0, function_long = 0\<rparr>\<rparr>\<rparr>)
   \<and> (refactoring_error (refactoring_analyze_file file_path focus_area src) = Some e \<longrightarrow>
        refactoring_analyze_file file_path focus_area src =
          \<lparr>refactoring_error = Some e, opportunities = [], totalOpportunities = 0,
           priorityBreakdown = \<lparr>high = 0, medium = 0, low = 0\<rparr>, focusArea = focus_area\<rparr>)"
proof (intro conjI impI)
  show "performance_analyze_file (Raised msg) =
     \<lparr>perf_error = Some msg, loops = [], perf_functions = [], stringConcatIssues = []\<rparr>"
    by (simp add: performance_analyze_file_def)
  show "quality_analyze_file (Raised msg) =
     \<lparr>quality_error = Some msg,
      complexity = \<lparr>complexity_functions = [], totalFunctions = 0, averageComplexity = PyInt 0,
        maxComplexity = 0, averageCognitive = PyInt 0, totalDecisionPoints = 0,
        mostComplexFunction = None\<rparr>,
      smells_of = \<lparr>godObjects = [], longParameterLists = [], longMethods = [],
        magicNumbers = [], emptyCatches = [],
        classMetrics = \<lparr>class_total = 0, class_large = 0\<rparr>,
        functionMetrics = \<lparr>function_total = 0, function_long = 0\<rparr>\<rparr>\<rparr>"
    by (simp add: quality_analyze_file_def quality_error_report_def)
  show "refactoring_analyze_file file_path focus_area (Raised msg) =
     \<lparr>refactoring_error = Some msg, opportunities = [], totalOpportunities = 0,
      priorityBreakdown = \<lparr>high = 0, medium = 0, low = 0\<rparr>, focusArea = focus_area\<rparr>"
    by (simp add: refactoring_analyze_file_def refactoring_error_report_def)
next
  assume "perf_error (performance_analyze_file src) = Some e"
  then show "performance_analyze_file src =
          \<lparr>perf_error = Some e, loops = [], perf_functions = [], stringConcatIssues = []\<rparr>"
    by (cases src) (simp_all add: performance_analyze_file_def Let_def)
next
  assume a: "quality_error (quality_analyze_file src) = Some e"
  have "quality_analyze_file src = quality_error_report e"
  proof (cases src)
    case (Raised msg)
    with a show ?thesis by (simp add: quality_analyze_file_def quality_error_report_def)
  next
    case (Loaded content tree)
    show ?thesis
      using a unfolding Loaded
      by (cases rule: quality_loaded_cases[of content tree])
        (simp_all add: quality_error_report_fields)
  qed
  then show "quality_analyze_file src =
          \<lparr>quality_error = Some e,
           complexity = \<lparr>complexity_functions = [], totalFunctions = 0,
             averageComplexity = PyInt 0, maxComplexity = 0, averageCognitive = PyInt 0,
             totalDecisionPoints = 0, mostComplexFunction = None\<rparr>,
           smells_of = \<lparr>godObjects = [], longParameterLists = [], longMethods = [],
             magicNumbers = [], emptyCatches = [],
             classMetrics = \<lparr>class_total = 0, class_large = 0\<rparr>,
             functionMetrics = \<lparr>function_total = 0, function_long = 0\<rparr>\<rparr>\<rparr>"
    by (simp add: quality_error_report_def)
next
  assume a: "refactoring_error (refactoring_analyze_file file_path focus_area src) = Some e"
  have "refactoring_analyze_file file_path focus_area src = refactoring_error_report focus_area e"
  proof (cases src)
    case (Raised msg)
    with a show ?thesis by (simp add: refactoring_analyze_file_def refactoring_error_report_def)
  next
    case (Loaded content tree)
    show ?thesis
      using a unfolding Loaded
      by (cases rule: refactoring_loaded_cases[of file_path content tree])
        (simp_all add: refactoring_error_report_fields)
  qed
  then show "refactoring_analyze_file file_path focus_area src =
          \<lparr>refactoring_error = Some e, opportunities = [], totalOpportunities = 0,
           priorityBreakdown = \<lparr>high = 0, medium = 0, low = 0\<rparr>, focusArea = focus_area\<rparr>"
    by (simp add: refactoring_error_report_def)
qed

text \<open>
  A missing file, whose read raises, and the parsed file of one line with 4301 digits,
  whose analysis raises: the reports have the shape above.
\<close>

theorem error_shaped_reports_witness:
  "quality_analyze_file (Raised missing_file_message) =
     \<lparr>quality_error = Some missing_file_message,
      complexity = \<lparr>complexity_functions = [], totalFunctions = 0, averageComplexity = PyInt 0,
        maxComplexity = 0, averageCognitive = PyInt 0, totalDecisionPoints = 0,
        mostComplexFunction = None\<rparr>,
      smells_of = \<lparr>godObjects = [], longParameterLists = [], longMethods = [],
        magicNumbers = [], emptyCatches = [],
        classMetrics = \<lparr>class_total = 0, class_large = 0\<rparr>,
        functionMetrics = \<lparr>function_total = 0, function_long = 0\<rparr>\<rparr>\<rparr>
   \<and> performance_analyze_file (Raised missing_file_message) =
     \<lparr>perf_error = Some missing_file_message, loops = [], perf_functions = [],
      stringConcatIssues = []\<rparr>
   \<and> refactoring_analyze_file ''digits.py'' ''all''
       (Loaded digit_string_source digit_string_tree) =
     \<lparr>refactoring_error = Some (int_limit_message 4301), opportunities = [],
      totalOpportunities = 0, priorityBreakdown = \<lparr>high = 0, medium = 0, low = 0\<rparr>,
      focusArea = ''all''\<rparr>"
proof -
  have q: "quality_error (quality_analyze_file (Raised missing_file_message)) =
      Some missing_file_message"
    by (simp add: quality_analyze_file_def quality_error_report_def)
  have p: "perf_error (performance_analyze_file (Raised missing_file_message)) =
      Some missing_file_message"
    by (simp add: performance_analyze_file_def)
  have r: "refactoring_error (refactoring_analyze_file ''digits.py'' ''all''
       (Loaded digit_string_source digit_string_tree)) = Some (int_limit_message 4301)"
    by (simp add: digit_string_report refactoring_error_report_def)
  from error_shaped_reports[where src = "Raised missing_file_message"
      and e = missing_file_message] q
  have a: "quality_analyze_file (Raised missing_file_message) =
     \<lparr>quality_error = Some missing_file_message,
      complexity = \<lparr>complexity_functions = [], totalFunctions = 0, averageComplexity = PyInt 0,
        maxComplexity = 0, averageCognitive = PyInt 0, totalDecisionPoints = 0,
        mostComplexFunction = None\<rparr>,
      smells_of = \<lparr>godObjects = [], longParameterLists = [], longMethods = [],
        magicNumbers = [], emptyCatches = [],
        classMetrics = \<lparr>class_total = 0, class_large = 0\<rparr>,
        functionMetrics = \<lparr>function_total = 0, function_long = 0\<rparr>\<rparr>\<rparr>"
    by blast
  from error_shaped_reports[where src = "Raised missing_file_message"
      and e = missing_file_message] p
  have b: "performance_analyze_file (Raised missing_file_message) =
     \<lparr>perf_error = Some missing_file_message, loops = [], perf_functions = [],
      stringConcatIssues = []\<rparr>"
    by blast
  from error_shaped_reports[where src = "Loaded digit_string_source digit_string_tree"
      and e = "int_limit_message 4301" and file_path = "''digits.py''"
      and focus_area = "''all''"] r
  have c: "refactoring_analyze_file ''digits.py'' ''all''
       (Loaded digit_string_source digit_string_tree) =
     \<lparr>refactoring_error = Some (int_limit_message 4301), opportunities = [],
      totalOpportunities = 0, priorityBreakdown = \<lparr>high = 0, medium = 0, low = 0\<rparr>,
      focusArea = ''all''\<rparr>"
    by blast
  from a b c show ?thesis by blast
qed

text \<open>
  The \<^verbatim>\<open>error\<close> string is not always non-empty. On a deeply nested expression, such as
  6000 minus signs before a digit, \<^verbatim>\<open>ast.parse\<close> raises \<^verbatim>\<open>MemoryError\<close>, an \<^verbatim>\<open>Exception\<close>
  whose message is the empty string: the three analyzers print an empty \<^verbatim>\<open>error\<close>.
\<close>

theorem error_message_empty:
  "perf_error (performance_analyze_file (Raised memory_error_message)) = Some []
   \<and> quality_error (quality_analyze_file (Raised memory_error_message)) = Some []
   \<and> refactoring_error (refactoring_analyze_file ''deep.py'' ''all''
        (Raised memory_error_message)) = Some []"
  by (simp add: performance_analyze_file_def quality_analyze_file_def quality_error_report_def
      refactoring_analyze_file_def refactoring_error_report_def memory_error_message_def)

text \<open>
  Claim C7. For every input, the opportunity list under the focus \<^verbatim>\<open>performance\<close>,
  \<^verbatim>\<open>maintainability\<close> or \<^verbatim>\<open>readability\<close> is the list under \<^verbatim>\<open>all\<close> restricted to the
  types of that focus, the entries kept unchanged and in the same order; under any other
  focus value it is the list under \<^verbatim>\<open>all\<close> itself.
\<close>

theorem focus_area_filtering:
  "opportunities (refactoring_analyze_file file_path ''performance'' src) =
     filter (\<lambda>opp. opp_type opp \<in> {''LONG_FUNCTION''})
       (opportunities (refactoring_analyze_file file_path ''all'' src))
   \<and> opportunities (refactoring_analyze_file file_path ''maintainability'' src) =
     filter (\<lambda>opp. opp_type opp \<in> {''LONG_FUNCTION'', ''LONG_PARAMETER_LIST'', ''MAGIC_NUMBER''})
       (opportunities (refactoring_analyze_file file_path ''all'' src))
   \<and> opportunities (refactoring_analyze_file file_path ''readability'' src) =
     filter (\<lambda>opp. opp_type opp \<in> {''LONG_LINE'', ''MAGIC_NUMBER''})
       (opportunities (refactoring_analyze_file file_path ''all'' src))
   \<and> (focus_area \<notin> {''performance'', ''maintainability'', ''readability''} \<longrightarrow>
        opportunities (refactoring_analyze_file file_path focus_area src) =
        opportunities (refactoring_analyze_file file_path ''all'' src))"
proof (cases src)
  case (Raised msg)
  then show ?thesis by (simp add: refactoring_analyze_file_def refactoring_error_report_def)
next
  case (Loaded content tree)
  show ?thesis
  proof (cases rule: refactoring_loaded_cases[of file_path content tree])
    case (raised e)
    then show ?thesis unfolding Loaded by (simp add: refactoring_error_report_fields)
  next
    case analysed
    then show ?thesis unfolding Loaded by (simp add: filter_focus_def)
  qed
qed

text \<open>The focus \<^verbatim>\<open>security\<close> is not one of the three: it gives the list of \<^verbatim>\<open>all\<close>.\<close>

theorem focus_area_filtering_witness:
  "opportunities (refactoring_analyze_file ''lines.py'' ''security''
      (Loaded long_lines_source long_lines_tree)) =
   opportunities (refactoring_analyze_file ''lines.py'' ''all''
      (Loaded long_lines_source long_lines_tree))"
proof -
  have "''security'' \<notin> {''performance'', ''maintainability'', ''readability''}" by simp
  with focus_area_filtering[of "''lines.py''" "Loaded long_lines_source long_lines_tree"
      "''security''"]
  show ?thesis by blast
qed







lemma in_magic_number_opportunities:
  assumes "opp \<in> set (concat (map (magic_number_opportunities file_path) ps))"
  shows "\<exists>i num. opp = magic_number_opportunity file_path i num
           \<and> num \<notin> {0, 1, - 1, 2, 10, 100, 1000}"
proof -
  from assms obtain p where "opp \<in> set (magic_number_opportunities file_path p)" by auto
  then show ?thesis
    by (auto simp: magic_number_opportunities_def split: option.splits if_splits)
qed

lemma refactoring_magic_numbers:
  assumes "opp \<in> set (opportunities
      (refactoring_analyze_file file_path focus_area (Loaded content tree)))"
    and "opp_type opp = ''MAGIC_NUMBER''"
  shows "\<exists>i num. opp = magic_number_opportunity file_path i num
           \<and> num \<notin> {0, 1, - 1, 2, 10, 100, 1000}"
proof -
  from assms(1) have "opp \<in> set (all_opportunities file_path content tree)"
    using refactoring_opportunities_subset by blast
  with assms(2) have "opp \<in> set (filter (\<lambda>opp. opp_type opp = ''MAGIC_NUMBER'')
      (all_opportunities file_path content tree))" by simp
  then show ?thesis unfolding all_magic_numbers by (rule in_magic_number_opportunities)
qed

lemma magic_number_opportunity_type:
  "opp_type (magic_number_opportunity file_path i v) = ''MAGIC_NUMBER''"
  by (simp add: magic_number_opportunity_def)

lemma in_magic_number_smells:
  "s \<in> set (magic_number_smells n) \<longleftrightarrow>
     (\<exists>c ln v. n = Constant c ln \<and> int_value c = Some v \<and> v > 10
        \<and> s = magic_number_smell (str_int v) ln)"
proof (cases n)
  case (Constant c ln)
  show ?thesis
  proof (cases "int_value c")
    case None
    with Constant show ?thesis by simp
  next
    case (Some v)
    with Constant show ?thesis by auto
  qed
qed simp_all

text \<open>
  Claim C2, as the code has it. The two analyzers differ. In the refactoring analyzer,
  under every focus, a \<^verbatim>\<open>MAGIC_NUMBER\<close> finding is built from a number outside the list
  0, 1, -1, 2, 10, 100, 1000, and no finding is the one of 0, 1, 2, 10, 100 or 1000. The
  quality analyzer has no such list but the threshold \<^verbatim>\<open>node.value > 10\<close>: each of its
  findings is the one of an integer constant of the tree greater than 10, and no finding
  is the one of a value up to 10 (so none for 0, 1, 2 and 10). Its analysis raises
  exactly when the tree has an integer constant greater than 10 with more decimal digits
  than \<^verbatim>\<open>str\<close> accepts, and then it has no finding; when it does not raise, every integer
  literal greater than 10 in the tree is reported, 100 and 1000 included.
\<close>

theorem magic_number_findings:
  "(\<forall>opp\<in>set (opportunities
        (refactoring_analyze_file file_path focus_area (Loaded content tree))).
      opp_type opp = ''MAGIC_NUMBER'' \<longrightarrow>
        (\<exists>i num. opp = magic_number_opportunity file_path i num
           \<and> num \<notin> {0, 1, - 1, 2, 10, 100, 1000}))
   \<and> (\<forall>v\<in>{0, 1, 2, 10, 100, 1000}. \<forall>i.
        magic_number_opportunity file_path i v \<notin> set (opportunities
          (refactoring_analyze_file file_path focus_area (Loaded content tree))))
   \<and> (\<forall>s\<in>set (magicNumbers (smells_of (quality_analyze_file (Loaded content tree)))).
        \<exists>c ln v. Constant c ln \<in> set (subtree tree) \<and> int_value c = Some v \<and> v > 10
           \<and> s = magic_number_smell (str_int v) ln)
   \<and> (\<forall>v ln. v \<le> 10 \<longrightarrow>
        magic_number_smell (str_int v) ln \<notin> set (magicNumbers (smells_of
          (quality_analyze_file (Loaded content tree)))))
   \<and> (quality_error (quality_analyze_file (Loaded content tree)) = None
        \<longleftrightarrow> (\<forall>n\<in>set (subtree tree). \<not> constant_raises n))
   \<and> (quality_error (quality_analyze_file (Loaded content tree)) \<noteq> None \<longrightarrow>
        magicNumbers (smells_of (quality_analyze_file (Loaded content tree))) = [])
   \<and> (\<forall>v ln. quality_error (quality_analyze_file (Loaded content tree)) = None
          \<and> v > 10 \<and> Constant (CInt v) ln \<in> set (subtree tree) \<longrightarrow>
        magic_number_smell (str_int v) ln \<in> set (magicNumbers (smells_of
          (quality_analyze_file (Loaded content tree)))))"
proof (intro conjI ballI allI impI)
  fix opp
  assume "opp \<in> set (opportunities
        (refactoring_analyze_file file_path focus_area (Loaded content tree)))"
    and "opp_type opp = ''MAGIC_NUMBER''"
  then show "\<exists>i num. opp = magic_number_opportunity file_path i num
           \<and> num \<notin> {0, 1, - 1, 2, 10, 100, 1000}"
    by (rule refactoring_magic_numbers)
next
  fix v :: int and i
  assume v: "v \<in> {0, 1, 2, 10, 100, 1000}"
  show "magic_number_opportunity file_path i v \<notin> set (opportunities
          (refactoring_analyze_file file_path focus_area (Loaded content tree)))"
  proof
    assume "magic_number_opportunity file_path i v \<in> set (opportunities
          (refactoring_analyze_file file_path focus_area (Loaded content tree)))"
    from refactoring_magic_numbers[OF this magic_number_opportunity_type]
    obtain j num where "magic_number_opportunity file_path i v =
        magic_number_opportunity file_path j num" "num \<notin> {0, 1, - 1, 2, 10, 100, 1000}"
      by blast
    then have "v \<notin> {0, 1, - 1, 2, 10, 100, 1000}"
      using magic_number_opportunity_inj by blast
    with v show False by auto
  qed
next
  fix s
  assume "s \<in> set (magicNumbers (smells_of (quality_analyze_file (Loaded content tree))))"
  with quality_magic_numbers_subset[of content tree]
  have "s \<in> set (concat (map magic_number_smells (walk tree)))" by blast
  then obtain n where "n \<in> set (subtree tree)" "s \<in> set (magic_number_smells n)"
    by (auto simp: set_walk)
  then show "\<exists>c ln v. Constant c ln \<in> set (subtree tree) \<and> int_value c = Some v \<and> v > 10
           \<and> s = magic_number_smell (str_int v) ln"
    unfolding in_magic_number_smells by blast
next
  fix v :: int and ln
  assume v: "v \<le> 10"
  show "magic_number_smell (str_int v) ln \<notin> set (magicNumbers (smells_of
          (quality_analyze_file (Loaded content tree))))"
  proof
    assume "magic_number_smell (str_int v) ln \<in> set (magicNumbers (smells_of
          (quality_analyze_file (Loaded content tree))))"
    with quality_magic_numbers_subset[of content tree]
    have "magic_number_smell (str_int v) ln \<in> set (concat (map magic_number_smells (walk tree)))"
      by blast
    then obtain n where "magic_number_smell (str_int v) ln \<in> set (magic_number_smells n)"
      by auto
    then obtain w l where "w > 10"
      "magic_number_smell (str_int v) ln = magic_number_smell (str_int w) l"
      unfolding in_magic_number_smells by blast
    then have "v > 10" using magic_number_smell_inj by blast
    with v show False by simp
  qed
next
  show "quality_error (quality_analyze_file (Loaded content tree)) = None
        \<longleftrightarrow> (\<forall>n\<in>set (subtree tree). \<not> constant_raises n)"
    by (rule quality_error_iff)
next
  assume "quality_error (quality_analyze_file (Loaded content tree)) \<noteq> None"
  then show "magicNumbers (smells_of (quality_analyze_file (Loaded content tree))) = []"
    by (cases rule: quality_loaded_cases[of content tree])
      (simp_all add: quality_error_report_fields)
next
  fix v :: int and ln
  assume a: "quality_error (quality_analyze_file (Loaded content tree)) = None
          \<and> v > 10 \<and> Constant (CInt v) ln \<in> set (subtree tree)"
  then have w: "Constant (CInt v) ln \<in> set (walk tree)" by (simp add: set_walk)
  from a have m: "magic_number_smell (str_int v) ln
      \<in> set (magic_number_smells (Constant (CInt v) ln))"
    by simp
  from a have q: "magicNumbers (smells_of (quality_analyze_file (Loaded content tree))) =
      concat (map magic_number_smells (walk tree))"
    by (simp add: quality_magic_numbers)
  from w m show "magic_number_smell (str_int v) ln \<in> set (magicNumbers (smells_of
          (quality_analyze_file (Loaded content tree))))"
    unfolding q set_concat set_map by blast
qed

text \<open>
  On \<^verbatim>\<open>for i in range(1000): pass\<close> the analysis does not raise; the quality analyzer
  reports the literal 1000 of the loop bound, and the refactoring analyzer does not.
\<close>

theorem magic_number_findings_witness:
  "quality_error (quality_analyze_file (Loaded range_loop_source range_loop_tree)) = None
   \<and> magic_number_smell (str_int 1000) 1 \<in> set (magicNumbers (smells_of
      (quality_analyze_file (Loaded range_loop_source range_loop_tree))))
   \<and> magic_number_opportunity ''loop.py'' 0 1000 \<notin> set (opportunities
      (refactoring_analyze_file ''loop.py'' ''all'' (Loaded range_loop_source range_loop_tree)))"
proof -
  have n: "\<forall>n\<in>set (subtree range_loop_tree). \<not> constant_raises n"
    by code_simp
  have h: "(1000::int) > 10 \<and> Constant (CInt 1000) 1 \<in> set (subtree range_loop_tree)"
    by (simp add: range_loop_tree_def subtree.simps)
  have v: "(1000::int) \<in> {0, 1, 2, 10, 100, 1000}" by simp
  note t = magic_number_findings[of "''loop.py''" "''all''" range_loop_source range_loop_tree]
  from t n have e: "quality_error (quality_analyze_file
      (Loaded range_loop_source range_loop_tree)) = None"
    by blast
  from t e h have a: "magic_number_smell (str_int 1000) 1 \<in> set (magicNumbers (smells_of
      (quality_analyze_file (Loaded range_loop_source range_loop_tree))))"
    by blast
  from t v have b: "magic_number_opportunity ''loop.py'' 0 1000 \<notin> set (opportunities
      (refactoring_analyze_file ''loop.py'' ''all'' (Loaded range_loop_source range_loop_tree)))"
    by blast
  from e a b show ?thesis by blast
qed

text \<open>
  The literal 1000 used as a loop bound is in the magic-number findings of the quality
  report: the claim that it is excluded from both reports fails there.
\<close>

theorem quality_reports_literal_1000:
  "magicNumbers (smells_of (quality_analyze_file (Loaded range_loop_source range_loop_tree))) =
     [\<lparr>smell_type = ''MAGIC_NUMBER'', smell_line = 1,
       smell_description = ''Magic number: 1000'', severity = ''low''\<rparr>]"
proof -
  have e: "quality_error (quality_analyze_file
      (Loaded range_loop_source range_loop_tree)) = None"
    by code_simp
  show ?thesis
    unfolding quality_magic_numbers[OF e]
    by (simp add: range_loop_tree_def walk_def magic_number_smell_def
        str_int_def str_nat.simps digit_char_def)
qed

end
